theory Spec2Isabelle
  imports Complex_Main "HOL-Library.Sublist"
begin

section \<open>Tile builder of \<^verbatim>\<open>scripts/tile_city_mesh.py\<close>\<close>

text \<open>
  The script cuts a city mesh into printable tiles. Its module-level constants are the
  fields of the record \<open>config\<close>, passed to every function that reads them. Python
  floats are read as real numbers: rounding, infinities and NaN are outside this model.
  Python integers are \<open>int\<close>.
\<close>

subsection \<open>Configuration and errors\<close>

record config =
  TILE_SIZE :: real
  TILES_X :: int
  TILES_Y :: int
  MIN_MODEL_BASE_DEPTH :: real
  FILL_LAYER_THICKNESS :: real
  QUANTIZE_FILL :: bool
  QUANTIZE_ANCHOR_Z :: real
  EPS :: real
  MAGNET_RADIUS :: real
  MAGNET_HEIGHT :: real
  MAGNET_PERIM_OFFSET_MM :: real
  MAGNET_SAFETY :: real
  COUNTERSINK_SHOULDER :: real
  SINGLE_TILE_MODE :: bool
  SINGLE_TILE_ROW :: int
  SINGLE_TILE_COL :: int

text \<open>The values written in the script (section 0, CONFIG).\<close>

definition default_config :: config where
  "default_config =
     \<lparr> TILE_SIZE = 0.20, TILES_X = 3, TILES_Y = 5,
       MIN_MODEL_BASE_DEPTH = 0.005, FILL_LAYER_THICKNESS = 0.02,
       QUANTIZE_FILL = True, QUANTIZE_ANCHOR_Z = 0, EPS = 1 / 1000000,
       MAGNET_RADIUS = 0.005, MAGNET_HEIGHT = 0.002, MAGNET_PERIM_OFFSET_MM = 4,
       MAGNET_SAFETY = 0.001, COUNTERSINK_SHOULDER = 0.001,
       SINGLE_TILE_MODE = True, SINGLE_TILE_ROW = 1, SINGLE_TILE_COL = 2 \<rparr>"

text \<open>
  The exceptions the script can raise. \<open>FileNotFoundError\<close> is raised by
  \<open>ensure_dirs\<close>; a float division by zero raises \<open>ZeroDivisionError\<close>; indexing
  past the end of a list raises \<open>IndexError\<close>; \<open>int\<close> of a string that is not a
  number raises \<open>ValueError\<close>.
\<close>

datatype error =
    FileNotFoundError string
  | ZeroDivisionError
  | IndexError
  | ValueError

subsection \<open>Grid partitioner and base quantizer\<close>

type_synonym vec = "real \<times> real \<times> real"

definition tile_aabb :: "config \<Rightarrow> int \<Rightarrow> int \<Rightarrow> real \<times> real \<times> real \<times> real" where
  "tile_aabb cfg row col =
     (let min_x = of_int col * TILE_SIZE cfg;
          max_x = of_int (col + 1) * TILE_SIZE cfg;
          min_y = of_int row * TILE_SIZE cfg;
          max_y = of_int (row + 1) * TILE_SIZE cfg
      in (min_x, max_x, min_y, max_y))"

text \<open>
  \<open>quantized_bottom\<close>: without quantization one layer under the base; with it, the base
  plane snapped down to the layer grid anchored at \<open>QUANTIZE_ANCHOR_Z\<close>. The division by
  \<open>step\<close> raises when the step is zero.
\<close>

definition quantized_bottom :: "config \<Rightarrow> real \<Rightarrow> error + real" where
  "quantized_bottom cfg min_z =
     (if \<not> QUANTIZE_FILL cfg
      then Inr (min_z - MIN_MODEL_BASE_DEPTH cfg - FILL_LAYER_THICKNESS cfg)
      else
        let step = FILL_LAYER_THICKNESS cfg;
            pre_base = min_z - MIN_MODEL_BASE_DEPTH cfg
        in if step = 0 then Inl ZeroDivisionError
           else
             let snapped = QUANTIZE_ANCHOR_Z cfg
                   + of_int \<lfloor>(pre_base - QUANTIZE_ANCHOR_Z cfg) / step\<rfloor> * step
             in Inr (snapped - EPS cfg))"

subsection \<open>Height profiler\<close>

text \<open>
  The city object of the host: its mesh vertices in local coordinates and the transform
  \<open>matrix_world\<close> that places them in the world. In \<open>main\<close> it is the object returned by
  \<open>import_city_mesh\<close> after \<open>cleanup_normals\<close>, both host operations.
\<close>

record city_obj =
  matrix_world :: "vec \<Rightarrow> vec"
  vertices :: "vec list"

definition in_tile :: "real \<times> real \<times> real \<times> real \<Rightarrow> vec \<Rightarrow> bool" where
  "in_tile box v =
     (case box of (min_x, max_x, min_y, max_y) \<Rightarrow>
        case v of (x, y, z) \<Rightarrow> min_x \<le> x \<and> x \<le> max_x \<and> min_y \<le> y \<and> y \<le> max_y)"

text \<open>
  \<open>min_z_in_tile\<close>: the list \<open>zs\<close> of the heights of the world vertices inside the tile's
  XY bounds; \<open>min(zs)\<close> runs over the list from its first element; an empty list gives
  \<open>None\<close>.
\<close>

definition min_z_in_tile :: "config \<Rightarrow> city_obj \<Rightarrow> int \<Rightarrow> int \<Rightarrow> real option" where
  "min_z_in_tile cfg city row col =
     (let verts_world = map (matrix_world city) (vertices city);
          zs = map (\<lambda>v. snd (snd v)) (filter (in_tile (tile_aabb cfg row col)) verts_world)
      in case zs of [] \<Rightarrow> None | z # rest \<Rightarrow> Some (fold min rest z))"

subsection \<open>Strings: formatting and parsing integers\<close>

definition digit_char :: "nat \<Rightarrow> char" where
  "digit_char d = char_of (48 + d)"

function str_nat :: "nat \<Rightarrow> string" where
  "str_nat n = (if n < 10 then [digit_char n] else str_nat (n div 10) @ [digit_char (n mod 10)])"
  by pat_completeness auto
termination
  by (relation "measure (\<lambda>n. n)") auto

declare str_nat.simps [simp del]

text \<open>\<open>str(i)\<close>, as the f-strings of the script format an integer.\<close>

definition str_int :: "int \<Rightarrow> string" where
  "str_int i = (if i < 0 then CHR ''-'' # str_nat (nat (- i)) else str_nat (nat i))"

definition digit_val :: "char \<Rightarrow> nat option" where
  "digit_val c =
     (let n = (of_char c :: nat) in if 48 \<le> n \<and> n \<le> 57 then Some (n - 48) else None)"

fun parse_digits :: "nat \<Rightarrow> string \<Rightarrow> error + nat" where
  "parse_digits acc [] = Inr acc"
| "parse_digits acc (c # cs) =
     (case digit_val c of
        None \<Rightarrow> Inl ValueError
      | Some d \<Rightarrow> parse_digits (10 * acc + d) cs)"

text \<open>
  \<open>int(s)\<close> on an optional sign followed by decimal digits, anything else being a
  \<open>ValueError\<close>. Python accepts more (blanks around the number, underscores between
  digits); the script only parses what \<open>str_int\<close> wrote.
\<close>

definition py_int :: "string \<Rightarrow> error + int" where
  "py_int s =
     (case s of
        [] \<Rightarrow> Inl ValueError
      | c # cs \<Rightarrow>
          if c = CHR ''-'' \<or> c = CHR ''+'' then
            (if cs = [] then Inl ValueError
             else case parse_digits 0 cs of
                    Inl e \<Rightarrow> Inl e
                  | Inr n \<Rightarrow> Inr (if c = CHR ''-'' then - int n else int n))
          else (case parse_digits 0 s of Inl e \<Rightarrow> Inl e | Inr n \<Rightarrow> Inr (int n)))"

text \<open>\<open>s.split(sep)\<close> for a separator of one character.\<close>

fun split_on :: "char \<Rightarrow> string \<Rightarrow> string list" where
  "split_on sep [] = [[]]"
| "split_on sep (c # cs) =
     (if c = sep then [] # split_on sep cs
      else (c # hd (split_on sep cs)) # tl (split_on sep cs))"

text \<open>\<open>xs[i]\<close> for an index that is not negative.\<close>

definition py_index :: "'a list \<Rightarrow> nat \<Rightarrow> error + 'a" where
  "py_index xs i = (if i < length xs then Inr (xs ! i) else Inl IndexError)"

subsection \<open>Host scene: primitives, objects and boolean modifiers\<close>

text \<open>
  The primitives the script asks the host for, with the arguments it passes: a cube by
  \<open>size\<close> and \<open>location\<close>, then scaled in Z; a cylinder by \<open>radius\<close>, \<open>depth\<close> and
  \<open>location\<close> (the host centres it at the location, its axis along Z); a cone by
  \<open>radius1\<close>, \<open>radius2\<close>, \<open>depth\<close>, \<open>location\<close> and \<open>rotation\<close>. \<open>CityShape\<close> is the
  geometry of the imported city mesh.
\<close>

datatype shape =
    CubePrim real vec real
  | CylinderPrim real real vec
  | ConePrim real real real vec vec
  | CityShape

record scene_obj =
  obj_name :: string
  obj_shape :: shape

record modifier =
  mod_name :: string
  mod_object :: scene_obj
  mod_operation :: string
  mod_solver :: string

text \<open>
  The mesh of a tile: the raw cube, or what applying a boolean modifier made of an earlier
  mesh. The nesting records the order of the subtractions.
\<close>

datatype solid = Raw shape | Difference solid scene_obj

record tile_obj =
  tile_name :: string
  tile_mesh :: solid
  tile_modifiers :: "modifier list"

definition city_cutter :: scene_obj where
  "city_cutter = \<lparr> obj_name = ''CityMesh'', obj_shape = CityShape \<rparr>"

text \<open>
  \<open>add_boolean\<close> appends a boolean modifier to the owner's stack (every call of the script
  uses the default operation). Hiding the cutter only changes what the viewport shows.
\<close>

definition add_boolean :: "tile_obj \<Rightarrow> scene_obj \<Rightarrow> string \<Rightarrow> tile_obj" where
  "add_boolean mod_owner cutter name =
     mod_owner\<lparr>tile_modifiers := tile_modifiers mod_owner @
       [\<lparr> mod_name = name, mod_object = cutter,
          mod_operation = ''DIFFERENCE'', mod_solver = ''EXACT'' \<rparr>]\<rparr>"

subsection \<open>Fixture placer\<close>

text \<open>The local \<open>offset_m\<close> of \<open>add_corner_magnets\<close>: the configured inset, in metres, clamped.\<close>

definition offset_m :: "config \<Rightarrow> real" where
  "offset_m cfg = max (MAGNET_PERIM_OFFSET_MM cfg / 1000) (MAGNET_RADIUS cfg + MAGNET_SAFETY cfg)"

text \<open>The body of the loop over the enumerated corners: the hole, then its countersink.\<close>

definition magnet_step ::
  "config \<Rightarrow> int \<Rightarrow> int \<Rightarrow> real \<Rightarrow> real \<Rightarrow> real \<Rightarrow> tile_obj \<Rightarrow> nat \<times> real \<times> real \<Rightarrow> tile_obj" where
  "magnet_step cfg row col depth magnet_center_z tile_bottom_z cube ic =
     (case ic of (i, cx, cy) \<Rightarrow>
        let cyl = \<lparr> obj_name = ''MagnetHole_'' @ str_int col @ ''_'' @ str_int row @ ''_'' @ str_nat i,
                    obj_shape = CylinderPrim (MAGNET_RADIUS cfg) depth (cx, cy, magnet_center_z) \<rparr>;
            cube1 = add_boolean cube cyl (''MagnetHole_'' @ str_nat i);
            cone_base_radius = max (MAGNET_RADIUS cfg - COUNTERSINK_SHOULDER cfg) 0.0005;
            cone_h = cone_base_radius;
            cone_base_z = tile_bottom_z + MAGNET_HEIGHT cfg - 0.0005;
            cone_center_z = cone_base_z + cone_h / 2;
            cone = \<lparr> obj_name = ''MagnetCountersink_'' @ str_int col @ ''_'' @ str_int row @ ''_'' @ str_nat i,
                     obj_shape = ConePrim cone_base_radius 0 cone_h (cx, cy, cone_center_z) (0, 0, 0) \<rparr>
        in add_boolean cube1 cone (''MagnetCountersink_'' @ str_nat i))"

definition add_corner_magnets ::
  "config \<Rightarrow> tile_obj \<Rightarrow> int \<Rightarrow> int \<Rightarrow> real \<Rightarrow> real \<Rightarrow> real \<Rightarrow> real \<Rightarrow> tile_obj" where
  "add_corner_magnets cfg cube row col x y z cube_height =
     (let extra = 0.01;
          depth = MAGNET_HEIGHT cfg + extra;
          tile_bottom_z = z - cube_height / 2;
          magnet_center_z = tile_bottom_z + MAGNET_HEIGHT cfg / 2 - extra / 2;
          half = TILE_SIZE cfg / 2;
          dx = half - offset_m cfg;
          dy = half - offset_m cfg;
          corners = [(x - dx, y - dy), (x + dx, y - dy), (x - dx, y + dy), (x + dx, y + dy)]
      in foldl (magnet_step cfg row col depth magnet_center_z tile_bottom_z) cube
           (enumerate 0 corners))"

subsection \<open>Applying modifiers and exporting\<close>

text \<open>
  What the script needs from its surroundings: whether the city mesh file exists, whether
  the output directory exists once \<open>mkdir\<close> has run, and for which objects and modifier
  names the host's \<open>modifier_apply\<close> fails with a \<open>RuntimeError\<close>.
\<close>

record host =
  city_mesh_exists :: bool
  output_dir_exists :: bool
  boolean_fails :: "tile_obj \<Rightarrow> string \<Rightarrow> bool"

definition ensure_dirs :: "host \<Rightarrow> error + unit" where
  "ensure_dirs h =
     (if \<not> city_mesh_exists h
      then Inl (FileNotFoundError ''City mesh not found: output/scaled_mesh.stl'')
      else if \<not> output_dir_exists h
      then Inl (FileNotFoundError ''Output directory not found: output/tiles'')
      else Inr ())"

text \<open>
  The host's \<open>modifier_apply\<close>: \<open>None\<close> stands for the \<open>RuntimeError\<close> it raises when the
  object has no modifier of that name or the operation fails, the object staying as it
  was; otherwise the cutter is subtracted from the mesh and the modifier leaves the stack.
\<close>

definition modifier_apply :: "host \<Rightarrow> tile_obj \<Rightarrow> string \<Rightarrow> tile_obj option" where
  "modifier_apply h obj name =
     (case find (\<lambda>m. mod_name m = name) (tile_modifiers obj) of
        None \<Rightarrow> None
      | Some m \<Rightarrow>
          if boolean_fails h obj name then None
          else Some (obj\<lparr>tile_mesh := Difference (tile_mesh obj) (mod_object m),
                         tile_modifiers := remove1 m (tile_modifiers obj)\<rparr>))"

text \<open>\<open>apply_modifiers\<close>: each name in turn; a \<open>RuntimeError\<close> is caught and passed over.\<close>

definition apply_modifiers :: "host \<Rightarrow> tile_obj \<Rightarrow> string list option \<Rightarrow> tile_obj" where
  "apply_modifiers h obj names =
     (let names = (case names of None \<Rightarrow> map mod_name (tile_modifiers obj) | Some ns \<Rightarrow> ns)
      in foldl (\<lambda>obj name. case modifier_apply h obj name of None \<Rightarrow> obj | Some obj' \<Rightarrow> obj')
           obj names)"

text \<open>\<open>export_tile\<close> writes the object's mesh to the path it returns.\<close>

definition export_tile :: "tile_obj \<Rightarrow> int \<Rightarrow> int \<Rightarrow> string \<times> solid" where
  "export_tile obj row col =
     (''output/tiles/tile_'' @ str_int col @ ''_'' @ str_int row @ ''.stl'', tile_mesh obj)"

subsection \<open>Main\<close>

text \<open>
  \<open>place_tile\<close> is the second half of \<open>process_tile\<close>, from the comment
  \<^verbatim>\<open># Cube placement\<close> to the call of \<open>add_corner_magnets\<close>: the cube between
  \<open>cube_bottom\<close> and \<open>cube_top\<close> with its nine boolean modifiers. There is no comparison
  of \<open>cube_bottom\<close> with \<open>cube_top\<close>; the only exceptions are the divisions by zero.
\<close>

definition place_tile :: "config \<Rightarrow> int \<Rightarrow> int \<Rightarrow> real \<Rightarrow> error + tile_obj" where
  "place_tile cfg row col min_z =
     (let x = of_int col * TILE_SIZE cfg + TILE_SIZE cfg / 2;
          y = of_int row * TILE_SIZE cfg + TILE_SIZE cfg / 2
      in case quantized_bottom cfg min_z of
           Inl e \<Rightarrow> Inl e
         | Inr cube_bottom \<Rightarrow>
             (let cube_top = min_z + TILE_SIZE cfg / 2;
                  cube_height = cube_top - cube_bottom;
                  z = cube_bottom + cube_height / 2
              in if TILE_SIZE cfg = 0 then Inl ZeroDivisionError
                 else
                   (let cube = \<lparr> tile_name = ''Tile_'' @ str_int col @ ''_'' @ str_int row,
                                 tile_mesh = Raw (CubePrim (TILE_SIZE cfg) (x, y, z)
                                                    (cube_height / TILE_SIZE cfg)),
                                 tile_modifiers = [] \<rparr>;
                        cube1 = add_boolean cube city_cutter ''Difference'';
                        cube2 = add_corner_magnets cfg cube1 row col x y z cube_height
                    in Inr cube2)))"

definition process_tile ::
  "config \<Rightarrow> city_obj \<Rightarrow> int \<Rightarrow> int \<Rightarrow> tile_obj list \<Rightarrow> error + tile_obj list" where
  "process_tile cfg city row col tiles =
     (case min_z_in_tile cfg city row col of
        None \<Rightarrow> Inr tiles
      | Some min_z \<Rightarrow>
          (case place_tile cfg row col min_z of
             Inl e \<Rightarrow> Inl e
           | Inr cube \<Rightarrow> Inr (tiles @ [cube])))"

text \<open>The two nested \<open>for\<close> loops of the grid mode, rows outside, columns inside.\<close>

definition grid_indices :: "config \<Rightarrow> (int \<times> int) list" where
  "grid_indices cfg =
     concat (map (\<lambda>r. map (\<lambda>c. (r, c)) [0..TILES_X cfg - 1]) [0..TILES_Y cfg - 1])"

fun process_tiles ::
  "config \<Rightarrow> city_obj \<Rightarrow> (int \<times> int) list \<Rightarrow> tile_obj list \<Rightarrow> error + tile_obj list" where
  "process_tiles cfg city [] tiles = Inr tiles"
| "process_tiles cfg city ((r, c) # rest) tiles =
     (case process_tile cfg city r c tiles of
        Inl e \<Rightarrow> Inl e
      | Inr tiles' \<Rightarrow> process_tiles cfg city rest tiles')"

record run_output =
  files :: "(string \<times> solid) list"
  stdout :: "string list"

definition is_magnet_mod :: "string \<Rightarrow> bool" where
  "is_magnet_mod n = (prefix ''MagnetHole'' n \<or> prefix ''MagnetCountersink'' n)"

definition magnet_mods :: "tile_obj \<Rightarrow> string list" where
  "magnet_mods t = filter is_magnet_mod (map mod_name (tile_modifiers t))"

text \<open>
  The loop of \<open>main\<close> that applies the modifiers of each tile and exports it. The two calls
  of \<open>apply_modifiers\<close> are \<open>apply_tile_modifiers\<close>: the city difference first, then the
  magnet modifiers in the order of the stack. Row and column are read back from the
  object's name. The two \<open>print\<close> calls are the only output of the script.
\<close>

definition apply_tile_modifiers :: "host \<Rightarrow> tile_obj \<Rightarrow> tile_obj" where
  "apply_tile_modifiers h t =
     (let t1 = apply_modifiers h t (Some [''Difference''])
      in apply_modifiers h t1 (Some (magnet_mods t1)))"

fun export_tiles :: "host \<Rightarrow> tile_obj list \<Rightarrow> run_output \<Rightarrow> error + run_output" where
  "export_tiles h [] out = Inr out"
| "export_tiles h (t # ts) out =
     (let t2 = apply_tile_modifiers h t;
          parts = split_on CHR ''_'' (tile_name t2)
      in case py_index parts 2 of
           Inl e \<Rightarrow> Inl e
         | Inr rs \<Rightarrow>
             (case py_int rs of
                Inl e \<Rightarrow> Inl e
              | Inr row \<Rightarrow>
                  (case py_index parts 1 of
                     Inl e \<Rightarrow> Inl e
                   | Inr cs \<Rightarrow>
                       (case py_int cs of
                          Inl e \<Rightarrow> Inl e
                        | Inr col \<Rightarrow>
                            let written = export_tile t2 row col
                            in export_tiles h ts
                                 (out\<lparr>files := files out @ [written],
                                      stdout := stdout out @ [''Exported: '' @ fst written]\<rparr>)))))"

definition main :: "host \<Rightarrow> config \<Rightarrow> city_obj \<Rightarrow> error + run_output" where
  "main h cfg city =
     (case ensure_dirs h of
        Inl e \<Rightarrow> Inl e
      | Inr u \<Rightarrow>
          (case (if SINGLE_TILE_MODE cfg
                 then process_tile cfg city (SINGLE_TILE_ROW cfg) (SINGLE_TILE_COL cfg) []
                 else process_tiles cfg city (grid_indices cfg) []) of
             Inl e \<Rightarrow> Inl e
           | Inr tiles \<Rightarrow>
               (case export_tiles h tiles \<lparr> files = [], stdout = [] \<rparr> of
                  Inl e \<Rightarrow> Inl e
                | Inr out \<Rightarrow>
                    let count = (if SINGLE_TILE_MODE cfg then 1 else TILES_X cfg * TILES_Y cfg)
                    in Inr (out\<lparr>stdout := stdout out @
                         [''Created '' @ str_int count @
                          '' tile(s) with city cut, 2 cm-quantized underside, and four corner magnet holes.'']\<rparr>))))"

subsection \<open>Reading tiles and meshes\<close>

text \<open>
  The cutters subtracted from a mesh, the first subtraction first; the cylinders and the
  cones on a tile's modifier stack, in the order of the stack; the Z extent of a cylinder,
  which the host centres at its location.
\<close>

fun subtractions :: "solid \<Rightarrow> scene_obj list" where
  "subtractions (Raw s) = []"
| "subtractions (Difference m c) = subtractions m @ [c]"

definition bores :: "tile_obj \<Rightarrow> shape list" where
  "bores t = map (\<lambda>m. obj_shape (mod_object m))
               (filter (\<lambda>m. prefix ''MagnetHole'' (mod_name m)) (tile_modifiers t))"

fun cylinder_xy :: "shape \<Rightarrow> (real \<times> real) option" where
  "cylinder_xy (CylinderPrim r d (x, y, z)) = Some (x, y)"
| "cylinder_xy s = None"

fun cylinder_top :: "shape \<Rightarrow> real option" where
  "cylinder_top (CylinderPrim r d (x, y, z)) = Some (z + d / 2)"
| "cylinder_top s = None"

fun cylinder_bottom :: "shape \<Rightarrow> real option" where
  "cylinder_bottom (CylinderPrim r d (x, y, z)) = Some (z - d / 2)"
| "cylinder_bottom s = None"

fun cylinder_radius :: "shape \<Rightarrow> real option" where
  "cylinder_radius (CylinderPrim r d loc) = Some r"
| "cylinder_radius s = None"

fun cylinder_depth :: "shape \<Rightarrow> real option" where
  "cylinder_depth (CylinderPrim r d loc) = Some d"
| "cylinder_depth s = None"

text \<open>
  The heights the specification speaks of: the Z coordinates of the world vertices whose
  \<open>(x, y)\<close> lies in the footprint \<open>[col * S, (col + 1) * S] \<times> [row * S, (row + 1) * S]\<close>,
  bounds included. It is a set: the order of the vertices plays no part in it.
\<close>

definition heights_in_tile :: "config \<Rightarrow> city_obj \<Rightarrow> int \<Rightarrow> int \<Rightarrow> real set" where
  "heights_in_tile cfg city row col =
     (\<lambda>v. snd (snd v)) `
       {v \<in> matrix_world city ` set (vertices city).
          case v of (x, y, z) \<Rightarrow>
              of_int col * TILE_SIZE cfg \<le> x \<and> x \<le> of_int (col + 1) * TILE_SIZE cfg
            \<and> of_int row * TILE_SIZE cfg \<le> y \<and> y \<le> of_int (row + 1) * TILE_SIZE cfg}"

text \<open>What a run shows to its user: the error that ended it, or the paths written and the lines printed.\<close>

definition paths_and_stdout :: "error + run_output \<Rightarrow> error + string list \<times> string list" where
  "paths_and_stdout r =
     (case r of Inl e \<Rightarrow> Inl e | Inr out \<Rightarrow> Inr (map fst (files out), stdout out))"

text \<open>
  The order the specification asks of the fixture cuts, on the names of the cutters in
  the order of their subtraction: every bore is subtracted before any countersink, that
  is, no bore comes after a countersink.
\<close>

definition is_bore_name :: "string \<Rightarrow> bool" where
  "is_bore_name n = prefix ''MagnetHole'' n"

definition is_countersink_name :: "string \<Rightarrow> bool" where
  "is_countersink_name n = prefix ''MagnetCountersink'' n"

fun bores_before_countersinks :: "string list \<Rightarrow> bool" where
  "bores_before_countersinks [] = True"
| "bores_before_countersinks (n # ns) =
     ((if is_countersink_name n then \<not> list_ex is_bore_name ns else True)
      \<and> bores_before_countersinks ns)"

subsection \<open>A sample run\<close>

text \<open>
  A city with one vertex over tile (row 1, column 2) and one over tile (0, 0), and a host
  where both paths exist and no boolean fails.
\<close>

definition sample_city :: city_obj where
  "sample_city =
     \<lparr> matrix_world = (\<lambda>v. v),
       vertices = [(0.45, 0.25, 0.137), (0.5, 0.3, 0.2), (0.1, 0.1, 0.05)] \<rparr>"

definition sample_host :: host where
  "sample_host =
     \<lparr> city_mesh_exists = True, output_dir_exists = True, boolean_fails = (\<lambda>t n. False) \<rparr>"

text \<open>The same host with a boolean that fails on the first bore of every tile.\<close>

definition failing_host :: host where
  "failing_host =
     \<lparr> city_mesh_exists = True, output_dir_exists = True,
       boolean_fails = (\<lambda>t n. n = ''MagnetHole_0'') \<rparr>"

text \<open>A configuration whose base depth lifts the bottom of the enclosure above its top.\<close>

definition inverted_config :: config where
  "inverted_config = default_config\<lparr>MIN_MODEL_BASE_DEPTH := - 0.5\<rparr>"

text \<open>A city whose only vertex lies over the cell (row -4, column -1), outside the grid.\<close>

definition outside_city :: city_obj where
  "outside_city = \<lparr> matrix_world = (\<lambda>v. v), vertices = [(- 0.1, - 0.7, 3)] \<rparr>"

definition outside_config :: config where
  "outside_config = default_config\<lparr>SINGLE_TILE_ROW := - 4, SINGLE_TILE_COL := - 1\<rparr>"

section \<open>Properties\<close>

subsection \<open>Base quantizer\<close>

text \<open>Snapping down to the layer grid lands in the half-open layer below the base plane.\<close>

lemma snap_le:
  fixes p a s :: real
  assumes "0 < s"
  shows "a + of_int \<lfloor>(p - a) / s\<rfloor> * s \<le> p"
proof -
  have "of_int \<lfloor>(p - a) / s\<rfloor> * s \<le> ((p - a) / s) * s"
    using assms by (intro mult_right_mono of_int_floor_le) simp
  also have "\<dots> = p - a"
    using assms by simp
  finally show ?thesis by simp
qed

lemma snap_gt:
  fixes p a s :: real
  assumes "0 < s"
  shows "p - s < a + of_int \<lfloor>(p - a) / s\<rfloor> * s"
proof -
  have "(p - a) / s - 1 < of_int \<lfloor>(p - a) / s\<rfloor>" by linarith
  then have "((p - a) / s - 1) * s < of_int \<lfloor>(p - a) / s\<rfloor> * s"
    using assms by (simp only: mult_strict_right_mono)
  moreover have "((p - a) / s - 1) * s = p - a - s"
    using assms by (simp add: field_simps)
  ultimately show ?thesis by simp
qed

text \<open>
  Claim C1. With \<open>QUANTIZE_FILL\<close> the quantizer returns
  \<open>QUANTIZE_ANCHOR_Z + floor((min_z - MIN_MODEL_BASE_DEPTH - QUANTIZE_ANCHOR_Z) /
  FILL_LAYER_THICKNESS) * FILL_LAYER_THICKNESS - EPS\<close> (the division needs a layer
  thickness other than zero, and raises \<open>ZeroDivisionError\<close> at zero); without it the
  quantizer returns \<open>min_z - MIN_MODEL_BASE_DEPTH - FILL_LAYER_THICKNESS\<close>. In scenario A
  (tile size 0.20, layer 0.02, base depth 0.005, anchor 0, \<open>min_z = 0.137\<close>) the result is
  \<open>0.12 - EPS\<close>.
\<close>

theorem quantized_bottom_formula:
  "(QUANTIZE_FILL cfg \<and> FILL_LAYER_THICKNESS cfg \<noteq> 0 \<longrightarrow>
      quantized_bottom cfg min_z =
        Inr (QUANTIZE_ANCHOR_Z cfg
             + of_int \<lfloor>(min_z - MIN_MODEL_BASE_DEPTH cfg - QUANTIZE_ANCHOR_Z cfg)
                        / FILL_LAYER_THICKNESS cfg\<rfloor> * FILL_LAYER_THICKNESS cfg
             - EPS cfg))
   \<and> (QUANTIZE_FILL cfg \<and> FILL_LAYER_THICKNESS cfg = 0 \<longrightarrow>
      quantized_bottom cfg min_z = Inl ZeroDivisionError)
   \<and> (\<not> QUANTIZE_FILL cfg \<longrightarrow>
      quantized_bottom cfg min_z =
        Inr (min_z - MIN_MODEL_BASE_DEPTH cfg - FILL_LAYER_THICKNESS cfg))
   \<and> quantized_bottom
        (cfg\<lparr>TILE_SIZE := 0.20, FILL_LAYER_THICKNESS := 0.02, MIN_MODEL_BASE_DEPTH := 0.005,
              QUANTIZE_ANCHOR_Z := 0, QUANTIZE_FILL := True\<rparr>) 0.137
      = Inr (0.12 - EPS cfg)"
  by (simp add: quantized_bottom_def Let_def)

theorem quantized_bottom_formula_witness:
  "QUANTIZE_FILL default_config \<and> FILL_LAYER_THICKNESS default_config \<noteq> 0
   \<and> quantized_bottom default_config 0.137 = Inr (0.12 - 1 / 1000000)
   \<and> \<not> QUANTIZE_FILL (default_config\<lparr>QUANTIZE_FILL := False\<rparr>)
   \<and> quantized_bottom (default_config\<lparr>QUANTIZE_FILL := False\<rparr>) 0.137 = Inr 0.112
   \<and> quantized_bottom (default_config\<lparr>FILL_LAYER_THICKNESS := 0\<rparr>) 0.137
       = Inl ZeroDivisionError"
  using quantized_bottom_formula [of default_config "0.137"]
    quantized_bottom_formula [of "default_config\<lparr>QUANTIZE_FILL := False\<rparr>" "0.137"]
    quantized_bottom_formula [of "default_config\<lparr>FILL_LAYER_THICKNESS := 0\<rparr>" "0.137"]
  by (simp add: default_config_def)

text \<open>
  Claim C4. With a positive layer thickness and \<open>EPS\<close> not negative, the quantizer returns
  a bottom, in both modes, and this bottom is at most \<open>min_z - MIN_MODEL_BASE_DEPTH\<close>.
\<close>

theorem quantized_bottom_keeps_base_depth:
  assumes "0 < FILL_LAYER_THICKNESS cfg" and "0 \<le> EPS cfg"
  shows "\<exists>bottom_z. quantized_bottom cfg min_z = Inr bottom_z
           \<and> bottom_z \<le> min_z - MIN_MODEL_BASE_DEPTH cfg"
proof (cases "QUANTIZE_FILL cfg")
  case True
  have "QUANTIZE_ANCHOR_Z cfg
          + of_int \<lfloor>(min_z - MIN_MODEL_BASE_DEPTH cfg - QUANTIZE_ANCHOR_Z cfg)
                     / FILL_LAYER_THICKNESS cfg\<rfloor> * FILL_LAYER_THICKNESS cfg
        \<le> min_z - MIN_MODEL_BASE_DEPTH cfg"
    using assms(1) by (rule snap_le)
  with True assms show ?thesis
    by (simp add: quantized_bottom_def Let_def)
next
  case False
  with assms show ?thesis by (simp add: quantized_bottom_def)
qed

theorem quantized_bottom_keeps_base_depth_witness:
  "0 < FILL_LAYER_THICKNESS default_config \<and> 0 \<le> EPS default_config
   \<and> (\<exists>bottom_z. quantized_bottom default_config 0.137 = Inr bottom_z
         \<and> bottom_z \<le> 0.137 - MIN_MODEL_BASE_DEPTH default_config)"
proof -
  have a: "0 < FILL_LAYER_THICKNESS default_config" by (simp add: default_config_def)
  have b: "0 \<le> EPS default_config" by (simp add: default_config_def)
  from quantized_bottom_keeps_base_depth [OF a b, of "0.137"] a b show ?thesis by blast
qed

text \<open>
  Claim C9. With \<open>QUANTIZE_FILL\<close> and a positive layer thickness, the bottom returned is
  above \<open>min_z - MIN_MODEL_BASE_DEPTH - FILL_LAYER_THICKNESS - EPS\<close>: quantization sinks
  the bottom by less than one layer plus \<open>EPS\<close>.
\<close>

theorem quantized_bottom_within_one_layer:
  assumes "QUANTIZE_FILL cfg" and "0 < FILL_LAYER_THICKNESS cfg"
  shows "\<exists>bottom_z. quantized_bottom cfg min_z = Inr bottom_z
           \<and> min_z - MIN_MODEL_BASE_DEPTH cfg - FILL_LAYER_THICKNESS cfg - EPS cfg < bottom_z"
proof -
  have "min_z - MIN_MODEL_BASE_DEPTH cfg - FILL_LAYER_THICKNESS cfg
        < QUANTIZE_ANCHOR_Z cfg
          + of_int \<lfloor>(min_z - MIN_MODEL_BASE_DEPTH cfg - QUANTIZE_ANCHOR_Z cfg)
                     / FILL_LAYER_THICKNESS cfg\<rfloor> * FILL_LAYER_THICKNESS cfg"
    using assms(2) by (rule snap_gt)
  with assms show ?thesis
    by (simp add: quantized_bottom_def Let_def)
qed

theorem quantized_bottom_within_one_layer_witness:
  "QUANTIZE_FILL default_config \<and> 0 < FILL_LAYER_THICKNESS default_config
   \<and> (\<exists>bottom_z. quantized_bottom default_config 0.137 = Inr bottom_z
         \<and> 0.137 - MIN_MODEL_BASE_DEPTH default_config - FILL_LAYER_THICKNESS default_config
             - EPS default_config < bottom_z)"
proof -
  have a: "QUANTIZE_FILL default_config" by (simp add: default_config_def)
  have b: "0 < FILL_LAYER_THICKNESS default_config" by (simp add: default_config_def)
  from quantized_bottom_within_one_layer [OF a b, of "0.137"] a b show ?thesis by blast
qed

subsection \<open>Integers survive formatting and parsing\<close>

text \<open>
  \<open>process_tile\<close> writes row and column into the object's name and \<open>main\<close> reads them
  back with \<open>split\<close> and \<open>int\<close>; the lemmas below show that this gives the same integers.
\<close>

lemma digit_val_digit_char: "d < 10 \<Longrightarrow> digit_val (digit_char d) = Some d"
  by (simp add: digit_val_def digit_char_def)

lemma digit_val_signs:
  "digit_val CHR ''-'' = None" "digit_val CHR ''+'' = None" "digit_val CHR ''_'' = None"
  by (simp_all add: digit_val_def)

lemma str_nat_digits: "c \<in> set (str_nat n) \<Longrightarrow> digit_val c \<noteq> None"
proof (induction n rule: str_nat.induct)
  case (1 n)
  show ?case
  proof (cases "n < 10")
    case True
    with "1.prems" have "c = digit_char n" by (simp add: str_nat.simps [of n])
    with True show ?thesis by (simp add: digit_val_digit_char)
  next
    case False
    with "1.prems" have "c \<in> set (str_nat (n div 10)) \<or> c = digit_char (n mod 10)"
      by (auto simp add: str_nat.simps [of n])
    then show ?thesis
    proof
      assume "c \<in> set (str_nat (n div 10))"
      with False "1.IH" show ?thesis by simp
    next
      assume "c = digit_char (n mod 10)"
      then show ?thesis by (simp add: digit_val_digit_char)
    qed
  qed
qed

lemma str_nat_not_Nil: "str_nat n \<noteq> []"
  by (simp add: str_nat.simps [of n])

lemma parse_digits_append:
  "parse_digits acc (xs @ ys) =
     (case parse_digits acc xs of Inl e \<Rightarrow> Inl e | Inr a \<Rightarrow> parse_digits a ys)"
  by (induction xs arbitrary: acc) (simp_all split: option.splits)

lemma parse_digits_str_nat: "parse_digits 0 (str_nat n) = Inr n"
proof (induction n rule: str_nat.induct)
  case (1 n)
  show ?case
  proof (cases "n < 10")
    case True
    then show ?thesis by (simp add: str_nat.simps [of n] digit_val_digit_char)
  next
    case False
    with "1.IH" have "parse_digits 0 (str_nat (n div 10)) = Inr (n div 10)" by simp
    with False show ?thesis
      by (simp add: str_nat.simps [of n] parse_digits_append digit_val_digit_char)
  qed
qed

lemma py_int_str_int: "py_int (str_int i) = Inr i"
proof (cases "i < 0")
  case True
  then show ?thesis
    by (simp add: py_int_def str_int_def parse_digits_str_nat str_nat_not_Nil)
next
  case False
  obtain c cs where s: "str_nat (nat i) = c # cs"
    using str_nat_not_Nil [of "nat i"] by (cases "str_nat (nat i)") auto
  then have "c \<in> set (str_nat (nat i))" by simp
  then have "digit_val c \<noteq> None" by (rule str_nat_digits)
  then have "c \<noteq> CHR ''-''" "c \<noteq> CHR ''+''" using digit_val_signs by auto
  moreover have "parse_digits 0 (c # cs) = Inr (nat i)"
    using parse_digits_str_nat [of "nat i"] s by simp
  ultimately show ?thesis using False s
    by (simp add: py_int_def str_int_def)
qed

lemma str_nat_no_underscore: "CHR ''_'' \<notin> set (str_nat n)"
proof
  assume "CHR ''_'' \<in> set (str_nat n)"
  then have "digit_val CHR ''_'' \<noteq> None" by (rule str_nat_digits)
  then show False by (simp add: digit_val_signs)
qed

lemma str_int_no_underscore: "CHR ''_'' \<notin> set (str_int i)"
  by (simp add: str_int_def str_nat_no_underscore)

lemma split_on_no_sep: "sep \<notin> set xs \<Longrightarrow> split_on sep xs = [xs]"
  by (induction xs) auto

lemma split_on_append:
  "sep \<notin> set xs \<Longrightarrow> split_on sep (xs @ sep # ys) = xs # split_on sep ys"
  by (induction xs) auto

lemma split_tile_name:
  "split_on CHR ''_'' (''Tile_'' @ str_int col @ ''_'' @ str_int row)
     = [''Tile'', str_int col, str_int row]"
proof -
  have "split_on CHR ''_'' (str_int col @ CHR ''_'' # str_int row)
          = [str_int col, str_int row]"
    by (simp add: split_on_append split_on_no_sep str_int_no_underscore)
  then show ?thesis by simp
qed

subsection \<open>The tile built by \<open>place_tile\<close>\<close>

text \<open>
  The four corner loops of \<open>add_corner_magnets\<close> unrolled: the cylinders it adds, the
  names of its modifiers, and what it leaves alone.
\<close>

lemma str_nat_small:
  "str_nat 0 = ''0''" "str_nat (Suc 0) = ''1''" "str_nat (Suc (Suc 0)) = ''2''"
  "str_nat (Suc (Suc (Suc 0))) = ''3''"
  by code_simp+

lemma add_corner_magnets_bores:
  "bores (add_corner_magnets cfg cube row col x y z cube_height) =
     bores cube @
     map (\<lambda>c. CylinderPrim (MAGNET_RADIUS cfg) (MAGNET_HEIGHT cfg + 0.01)
                (fst c, snd c, z - cube_height / 2 + MAGNET_HEIGHT cfg / 2 - 0.01 / 2))
       [(x - (TILE_SIZE cfg / 2 - offset_m cfg), y - (TILE_SIZE cfg / 2 - offset_m cfg)),
        (x + (TILE_SIZE cfg / 2 - offset_m cfg), y - (TILE_SIZE cfg / 2 - offset_m cfg)),
        (x - (TILE_SIZE cfg / 2 - offset_m cfg), y + (TILE_SIZE cfg / 2 - offset_m cfg)),
        (x + (TILE_SIZE cfg / 2 - offset_m cfg), y + (TILE_SIZE cfg / 2 - offset_m cfg))]"
  by (simp add: add_corner_magnets_def magnet_step_def add_boolean_def bores_def Let_def
        enumerate_simps)

lemma add_corner_magnets_name:
  "tile_name (add_corner_magnets cfg cube row col x y z cube_height) = tile_name cube"
  by (simp add: add_corner_magnets_def magnet_step_def add_boolean_def Let_def enumerate_simps)

lemma add_corner_magnets_mesh:
  "tile_mesh (add_corner_magnets cfg cube row col x y z cube_height) = tile_mesh cube"
  by (simp add: add_corner_magnets_def magnet_step_def add_boolean_def Let_def enumerate_simps)

lemma add_corner_magnets_mod_names:
  "map mod_name (tile_modifiers (add_corner_magnets cfg cube row col x y z cube_height)) =
     map mod_name (tile_modifiers cube) @
     [''MagnetHole_0'', ''MagnetCountersink_0'', ''MagnetHole_1'', ''MagnetCountersink_1'',
      ''MagnetHole_2'', ''MagnetCountersink_2'', ''MagnetHole_3'', ''MagnetCountersink_3'']"
  by (simp add: add_corner_magnets_def magnet_step_def add_boolean_def Let_def enumerate_simps
        str_nat_small)

lemma place_tile_eq:
  assumes "quantized_bottom cfg min_z = Inr b" and "TILE_SIZE cfg \<noteq> 0"
  shows "place_tile cfg row col min_z =
    Inr (add_corner_magnets cfg
          (add_boolean
             \<lparr> tile_name = ''Tile_'' @ str_int col @ ''_'' @ str_int row,
               tile_mesh = Raw (CubePrim (TILE_SIZE cfg)
                 (of_int col * TILE_SIZE cfg + TILE_SIZE cfg / 2,
                  of_int row * TILE_SIZE cfg + TILE_SIZE cfg / 2,
                  b + (min_z + TILE_SIZE cfg / 2 - b) / 2)
                 ((min_z + TILE_SIZE cfg / 2 - b) / TILE_SIZE cfg)),
               tile_modifiers = [] \<rparr>
             city_cutter ''Difference'')
          row col
          (of_int col * TILE_SIZE cfg + TILE_SIZE cfg / 2)
          (of_int row * TILE_SIZE cfg + TILE_SIZE cfg / 2)
          (b + (min_z + TILE_SIZE cfg / 2 - b) / 2)
          (min_z + TILE_SIZE cfg / 2 - b))"
  using assms by (simp add: place_tile_def Let_def)

lemma place_tile_bores:
  assumes "quantized_bottom cfg min_z = Inr b" and "TILE_SIZE cfg \<noteq> 0"
    and "place_tile cfg row col min_z = Inr t"
  shows "bores t =
     map (\<lambda>c. CylinderPrim (MAGNET_RADIUS cfg) (MAGNET_HEIGHT cfg + 0.01)
                (fst c, snd c, b + MAGNET_HEIGHT cfg / 2 - 0.01 / 2))
       [(of_int col * TILE_SIZE cfg + TILE_SIZE cfg / 2 - (TILE_SIZE cfg / 2 - offset_m cfg),
         of_int row * TILE_SIZE cfg + TILE_SIZE cfg / 2 - (TILE_SIZE cfg / 2 - offset_m cfg)),
        (of_int col * TILE_SIZE cfg + TILE_SIZE cfg / 2 + (TILE_SIZE cfg / 2 - offset_m cfg),
         of_int row * TILE_SIZE cfg + TILE_SIZE cfg / 2 - (TILE_SIZE cfg / 2 - offset_m cfg)),
        (of_int col * TILE_SIZE cfg + TILE_SIZE cfg / 2 - (TILE_SIZE cfg / 2 - offset_m cfg),
         of_int row * TILE_SIZE cfg + TILE_SIZE cfg / 2 + (TILE_SIZE cfg / 2 - offset_m cfg)),
        (of_int col * TILE_SIZE cfg + TILE_SIZE cfg / 2 + (TILE_SIZE cfg / 2 - offset_m cfg),
         of_int row * TILE_SIZE cfg + TILE_SIZE cfg / 2 + (TILE_SIZE cfg / 2 - offset_m cfg))]"
proof -
  have "bores (add_boolean
             \<lparr> tile_name = ''Tile_'' @ str_int col @ ''_'' @ str_int row,
               tile_mesh = Raw (CubePrim (TILE_SIZE cfg)
                 (of_int col * TILE_SIZE cfg + TILE_SIZE cfg / 2,
                  of_int row * TILE_SIZE cfg + TILE_SIZE cfg / 2,
                  b + (min_z + TILE_SIZE cfg / 2 - b) / 2)
                 ((min_z + TILE_SIZE cfg / 2 - b) / TILE_SIZE cfg)),
               tile_modifiers = [] \<rparr>
             city_cutter ''Difference'') = []"
    by (simp add: bores_def add_boolean_def)
  with assms(3) show ?thesis
    unfolding place_tile_eq [OF assms(1,2)]
    by (auto simp add: add_corner_magnets_bores)
qed

subsection \<open>The sample run\<close>

lemma sample_min_z: "min_z_in_tile default_config sample_city 1 2 = Some 0.137"
  by (simp add: min_z_in_tile_def tile_aabb_def in_tile_def sample_city_def default_config_def)

lemma sample_bottom: "quantized_bottom default_config 0.137 = Inr 0.119999"
  by (simp add: quantized_bottom_def default_config_def)

subsection \<open>Fixture placer\<close>

text \<open>
  Claim C3. The effective corner offset is the larger of the configured perimeter offset
  (given in millimetres, divided by 1000) and \<open>MAGNET_RADIUS + MAGNET_SAFETY\<close>, so it is
  never below \<open>MAGNET_RADIUS + MAGNET_SAFETY\<close>; the four cylinders that
  \<open>add_corner_magnets\<close> adds sit at that offset from the tile's edges; and a radius of
  0.005, a safety of 0.001 and a configured offset of 1 mm (0.001) give 0.006.
\<close>

theorem magnet_offset_clamped:
  "offset_m cfg = max (MAGNET_PERIM_OFFSET_MM cfg / 1000) (MAGNET_RADIUS cfg + MAGNET_SAFETY cfg)
   \<and> MAGNET_RADIUS cfg + MAGNET_SAFETY cfg \<le> offset_m cfg
   \<and> map cylinder_xy (bores (add_corner_magnets cfg cube row col x y z cube_height)) =
       map cylinder_xy (bores cube) @
       [Some (x - (TILE_SIZE cfg / 2 - offset_m cfg), y - (TILE_SIZE cfg / 2 - offset_m cfg)),
        Some (x + (TILE_SIZE cfg / 2 - offset_m cfg), y - (TILE_SIZE cfg / 2 - offset_m cfg)),
        Some (x - (TILE_SIZE cfg / 2 - offset_m cfg), y + (TILE_SIZE cfg / 2 - offset_m cfg)),
        Some (x + (TILE_SIZE cfg / 2 - offset_m cfg), y + (TILE_SIZE cfg / 2 - offset_m cfg))]
   \<and> offset_m (cfg\<lparr>MAGNET_RADIUS := 0.005, MAGNET_SAFETY := 0.001,
                     MAGNET_PERIM_OFFSET_MM := 1\<rparr>) = 0.006"
proof (intro conjI)
  show "offset_m cfg = max (MAGNET_PERIM_OFFSET_MM cfg / 1000) (MAGNET_RADIUS cfg + MAGNET_SAFETY cfg)"
    by (simp add: offset_m_def)
  show "MAGNET_RADIUS cfg + MAGNET_SAFETY cfg \<le> offset_m cfg"
    by (simp add: offset_m_def)
  show "map cylinder_xy (bores (add_corner_magnets cfg cube row col x y z cube_height)) =
       map cylinder_xy (bores cube) @
       [Some (x - (TILE_SIZE cfg / 2 - offset_m cfg), y - (TILE_SIZE cfg / 2 - offset_m cfg)),
        Some (x + (TILE_SIZE cfg / 2 - offset_m cfg), y - (TILE_SIZE cfg / 2 - offset_m cfg)),
        Some (x - (TILE_SIZE cfg / 2 - offset_m cfg), y + (TILE_SIZE cfg / 2 - offset_m cfg)),
        Some (x + (TILE_SIZE cfg / 2 - offset_m cfg), y + (TILE_SIZE cfg / 2 - offset_m cfg))]"
    by (simp add: add_corner_magnets_bores)
  show "offset_m (cfg\<lparr>MAGNET_RADIUS := 0.005, MAGNET_SAFETY := 0.001,
                     MAGNET_PERIM_OFFSET_MM := 1\<rparr>) = 0.006"
    by (simp add: offset_m_def)
qed

theorem magnet_offset_clamped_witness:
  "offset_m default_config = 0.006
   \<and> MAGNET_RADIUS default_config + MAGNET_SAFETY default_config \<le> offset_m default_config"
  using magnet_offset_clamped [of default_config]
  by (simp add: default_config_def)

text \<open>
  Claim C7, as the code has it. For a populated tile, each of the four bore cylinders has
  radius \<open>MAGNET_RADIUS\<close> and depth \<open>MAGNET_HEIGHT + 0.01\<close>; its flat top face is at
  \<open>bottom_z + MAGNET_HEIGHT\<close>, inside the tile, and its bottom face at \<open>bottom_z - 0.01\<close>,
  below the underside.
\<close>

theorem bore_cylinders:
  assumes "min_z_in_tile cfg city row col = Some min_z"
    and "quantized_bottom cfg min_z = Inr bottom_z"
    and "TILE_SIZE cfg \<noteq> 0"
  shows "\<exists>t. process_tile cfg city row col tiles = Inr (tiles @ [t])
           \<and> length (bores t) = 4
           \<and> (\<forall>s \<in> set (bores t).
                 cylinder_radius s = Some (MAGNET_RADIUS cfg)
               \<and> cylinder_depth s = Some (MAGNET_HEIGHT cfg + 0.01)
               \<and> cylinder_top s = Some (bottom_z + MAGNET_HEIGHT cfg)
               \<and> cylinder_bottom s = Some (bottom_z - 0.01))"
proof -
  obtain t where t: "place_tile cfg row col min_z = Inr t"
    using place_tile_eq [OF assms(2,3)] by blast
  have "process_tile cfg city row col tiles = Inr (tiles @ [t])"
    using assms(1) t by (simp add: process_tile_def)
  moreover have "length (bores t) = 4"
    by (simp add: place_tile_bores [OF assms(2,3) t])
  moreover have "\<forall>s \<in> set (bores t).
                 cylinder_radius s = Some (MAGNET_RADIUS cfg)
               \<and> cylinder_depth s = Some (MAGNET_HEIGHT cfg + 0.01)
               \<and> cylinder_top s = Some (bottom_z + MAGNET_HEIGHT cfg)
               \<and> cylinder_bottom s = Some (bottom_z - 0.01)"
    by (simp add: place_tile_bores [OF assms(2,3) t]) (simp add: field_simps)
  ultimately show ?thesis by blast
qed

theorem bore_cylinders_witness:
  "min_z_in_tile default_config sample_city 1 2 = Some 0.137
   \<and> quantized_bottom default_config 0.137 = Inr 0.119999
   \<and> TILE_SIZE default_config \<noteq> 0
   \<and> (\<exists>t. process_tile default_config sample_city 1 2 [] = Inr ([] @ [t])
           \<and> length (bores t) = 4
           \<and> (\<forall>s \<in> set (bores t).
                 cylinder_radius s = Some (MAGNET_RADIUS default_config)
               \<and> cylinder_depth s = Some (MAGNET_HEIGHT default_config + 0.01)
               \<and> cylinder_top s = Some (0.119999 + MAGNET_HEIGHT default_config)
               \<and> cylinder_bottom s = Some (0.119999 - 0.01)))"
proof -
  have c: "TILE_SIZE default_config \<noteq> 0" by (simp add: default_config_def)
  from bore_cylinders [OF sample_min_z sample_bottom c, of "[]"] sample_min_z sample_bottom c
  show ?thesis by blast
qed

text \<open>
  Claim C7 as stated puts the top face of the bore at the underside \<open>bottom_z\<close>. In the
  sample run the underside is at 0.119999 and the four top faces are at 0.121999.
\<close>

theorem bore_top_counterexample:
  "min_z_in_tile default_config sample_city 1 2 = Some 0.137
   \<and> quantized_bottom default_config 0.137 = Inr 0.119999
   \<and> \<not> isl (place_tile default_config 1 2 0.137)
   \<and> map cylinder_top (bores (projr (place_tile default_config 1 2 0.137)))
       = [Some 0.121999, Some 0.121999, Some 0.121999, Some 0.121999]
   \<and> Some (0.121999 :: real) \<noteq> Some 0.119999"
proof -
  have c: "TILE_SIZE default_config \<noteq> 0" by (simp add: default_config_def)
  obtain t where t: "place_tile default_config 1 2 0.137 = Inr t"
    using place_tile_eq [OF sample_bottom c] by blast
  have "map cylinder_top (bores t) = [Some 0.121999, Some 0.121999, Some 0.121999, Some 0.121999]"
    by (simp add: place_tile_bores [OF sample_bottom c t]) (simp add: default_config_def)
  with t sample_min_z sample_bottom show ?thesis by simp
qed

subsection \<open>Height profiler\<close>

text \<open>The list \<open>zs\<close> of \<open>min_z_in_tile\<close> holds the heights of the specification.\<close>

lemma zs_set:
  "set (map (\<lambda>v. snd (snd v))
         (filter (in_tile (tile_aabb cfg row col)) (map (matrix_world city) (vertices city))))
   = heights_in_tile cfg city row col"
proof -
  have "in_tile (tile_aabb cfg row col) =
          (\<lambda>v. case v of (x, y, z) \<Rightarrow>
                 of_int col * TILE_SIZE cfg \<le> x \<and> x \<le> of_int (col + 1) * TILE_SIZE cfg
               \<and> of_int row * TILE_SIZE cfg \<le> y \<and> y \<le> of_int (row + 1) * TILE_SIZE cfg)"
    by (rule ext) (simp add: in_tile_def tile_aabb_def)
  then show ?thesis
    unfolding heights_in_tile_def by (simp only: set_map set_filter)
qed

lemma min_z_in_tile_Min:
  "min_z_in_tile cfg city row col =
     (if heights_in_tile cfg city row col = {} then None
      else Some (Min (heights_in_tile cfg city row col)))"
proof -
  let ?zs = "map (\<lambda>v. snd (snd v))
         (filter (in_tile (tile_aabb cfg row col)) (map (matrix_world city) (vertices city)))"
  have s: "set ?zs = heights_in_tile cfg city row col" by (rule zs_set)
  show ?thesis
  proof (cases ?zs)
    case Nil
    with s have "heights_in_tile cfg city row col = {}" by simp
    with Nil show ?thesis by (simp add: min_z_in_tile_def)
  next
    case (Cons z rest)
    with s have h: "heights_in_tile cfg city row col = set (z # rest)" by simp
    have "fold min rest z = Min (set (z # rest))" by (simp only: Min.set_eq_fold)
    with Cons h show ?thesis by (simp add: min_z_in_tile_def)
  qed
qed

lemma str_int_1: "str_int 1 = ''1''"
  by code_simp

lemma main_single_empty:
  assumes "SINGLE_TILE_MODE cfg" and "ensure_dirs h = Inr ()"
    and "min_z_in_tile cfg city (SINGLE_TILE_ROW cfg) (SINGLE_TILE_COL cfg) = None"
  shows "main h cfg city =
    Inr \<lparr> files = [],
          stdout = [''Created 1 tile(s) with city cut, 2 cm-quantized underside, and four corner magnet holes.''] \<rparr>"
  using assms by (simp add: main_def process_tile_def str_int_1)

text \<open>
  Claim C8. \<open>min_z_in_tile\<close> returns the minimum of the heights of exactly those world
  vertices that lie in the footprint, bounds included, and \<open>None\<close> when there is none; the
  result depends on the set of vertices only, not on their order. On \<open>None\<close>
  \<open>process_tile\<close> leaves the list of tiles as it was and raises nothing, the grid loop
  goes on with the next index, and a single-tile run ends without a file.
\<close>

theorem min_z_in_tile_inclusive_minimum:
  "min_z_in_tile cfg city row col =
     (if heights_in_tile cfg city row col = {} then None
      else Some (Min (heights_in_tile cfg city row col)))
   \<and> (set (vertices city') = set (vertices city) \<and> matrix_world city' = matrix_world city
        \<longrightarrow> min_z_in_tile cfg city' row col = min_z_in_tile cfg city row col)
   \<and> (heights_in_tile cfg city row col = {} \<longrightarrow>
        process_tile cfg city row col tiles = Inr tiles
      \<and> process_tiles cfg city ((row, col) # rest) tiles = process_tiles cfg city rest tiles)
   \<and> (heights_in_tile cfg city row col = {} \<and> SINGLE_TILE_MODE cfg
      \<and> SINGLE_TILE_ROW cfg = row \<and> SINGLE_TILE_COL cfg = col \<and> ensure_dirs h = Inr ()
        \<longrightarrow> (\<exists>out. main h cfg city = Inr out \<and> files out = []))"
proof (intro conjI impI)
  show "min_z_in_tile cfg city row col =
     (if heights_in_tile cfg city row col = {} then None
      else Some (Min (heights_in_tile cfg city row col)))"
    by (rule min_z_in_tile_Min)
next
  assume "set (vertices city') = set (vertices city) \<and> matrix_world city' = matrix_world city"
  then have "heights_in_tile cfg city' row col = heights_in_tile cfg city row col"
    by (simp add: heights_in_tile_def)
  then show "min_z_in_tile cfg city' row col = min_z_in_tile cfg city row col"
    by (simp only: min_z_in_tile_Min)
next
  assume "heights_in_tile cfg city row col = {}"
  then have n: "min_z_in_tile cfg city row col = None"
    by (simp add: min_z_in_tile_Min)
  then show "process_tile cfg city row col tiles = Inr tiles"
    by (simp add: process_tile_def)
  from n show "process_tiles cfg city ((row, col) # rest) tiles = process_tiles cfg city rest tiles"
    by (simp add: process_tile_def)
next
  assume a: "heights_in_tile cfg city row col = {} \<and> SINGLE_TILE_MODE cfg
      \<and> SINGLE_TILE_ROW cfg = row \<and> SINGLE_TILE_COL cfg = col \<and> ensure_dirs h = Inr ()"
  then have "min_z_in_tile cfg city (SINGLE_TILE_ROW cfg) (SINGLE_TILE_COL cfg) = None"
    by (simp add: min_z_in_tile_Min)
  with a show "\<exists>out. main h cfg city = Inr out \<and> files out = []"
    by (simp add: main_single_empty)
qed

lemma sample_ensure_dirs: "ensure_dirs sample_host = Inr ()"
  by (simp add: ensure_dirs_def sample_host_def)

lemma sample_heights_0_1: "heights_in_tile default_config sample_city 0 1 = {}"
  by (auto simp add: heights_in_tile_def sample_city_def default_config_def)

theorem min_z_in_tile_inclusive_minimum_witness:
  "heights_in_tile default_config sample_city 1 2 \<noteq> {}
   \<and> Min (heights_in_tile default_config sample_city 1 2) = 0.137
   \<and> heights_in_tile default_config sample_city 0 1 = {}
   \<and> min_z_in_tile default_config sample_city 0 1 = None
   \<and> process_tile default_config sample_city 0 1 [] = Inr []
   \<and> (\<exists>out. main sample_host
               (default_config\<lparr>SINGLE_TILE_ROW := 0, SINGLE_TILE_COL := 1\<rparr>) sample_city = Inr out
            \<and> files out = [])"
proof -
  let ?cfg = "default_config\<lparr>SINGLE_TILE_ROW := 0, SINGLE_TILE_COL := 1\<rparr>"
  have e: "heights_in_tile ?cfg sample_city 0 1 = {}"
    using sample_heights_0_1 by (simp add: heights_in_tile_def)
  have m: "SINGLE_TILE_MODE ?cfg \<and> SINGLE_TILE_ROW ?cfg = 0 \<and> SINGLE_TILE_COL ?cfg = 1"
    by (simp add: default_config_def)
  from min_z_in_tile_inclusive_minimum [THEN conjunct1, of default_config sample_city 1 2]
    sample_min_z
  have "(if heights_in_tile default_config sample_city 1 2 = {} then None
         else Some (Min (heights_in_tile default_config sample_city 1 2))) = Some 0.137"
    by simp
  then have p: "heights_in_tile default_config sample_city 1 2 \<noteq> {}
      \<and> Min (heights_in_tile default_config sample_city 1 2) = 0.137"
    by (cases "heights_in_tile default_config sample_city 1 2 = {}") simp_all
  from min_z_in_tile_inclusive_minimum [of default_config sample_city 0 1 sample_city "[]"]
    sample_heights_0_1
  have q: "min_z_in_tile default_config sample_city 0 1 = None
      \<and> process_tile default_config sample_city 0 1 [] = Inr []"
    by simp
  from min_z_in_tile_inclusive_minimum [of ?cfg sample_city 0 1 sample_city "[]" "[]" sample_host]
    e m sample_ensure_dirs
  have r: "\<exists>out. main sample_host ?cfg sample_city = Inr out \<and> files out = []"
    by blast
  from p q r sample_heights_0_1 show ?thesis by blast
qed

subsection \<open>Applying modifiers keeps the name; the export loop reads it back\<close>

lemma modifier_apply_name:
  "modifier_apply h obj name = Some obj' \<Longrightarrow> tile_name obj' = tile_name obj"
  by (auto simp add: modifier_apply_def split: option.splits if_splits)

lemma foldl_apply_name:
  "tile_name (foldl (\<lambda>obj name. case modifier_apply h obj name of None \<Rightarrow> obj | Some obj' \<Rightarrow> obj')
      obj names) = tile_name obj"
proof (induction names arbitrary: obj)
  case Nil
  show ?case by simp
next
  case (Cons n ns)
  show ?case
  proof (cases "modifier_apply h obj n")
    case None
    with Cons.IH [of obj] show ?thesis by simp
  next
    case (Some obj')
    with Cons.IH [of obj'] modifier_apply_name [OF Some] show ?thesis by simp
  qed
qed

lemma apply_modifiers_name: "tile_name (apply_modifiers h obj names) = tile_name obj"
  by (simp add: apply_modifiers_def foldl_apply_name)

lemma apply_tile_modifiers_name: "tile_name (apply_tile_modifiers h t) = tile_name t"
  by (simp add: apply_tile_modifiers_def apply_modifiers_name Let_def)

lemma export_tiles_named:
  assumes "tile_name t = ''Tile_'' @ str_int col @ ''_'' @ str_int row"
  shows "export_tiles h (t # ts) out =
    export_tiles h ts
      (out\<lparr>files := files out @ [export_tile (apply_tile_modifiers h t) row col],
           stdout := stdout out @ [''Exported: '' @ fst (export_tile (apply_tile_modifiers h t) row col)]\<rparr>)"
proof -
  have "split_on CHR ''_'' (tile_name (apply_tile_modifiers h t))
          = [''Tile'', str_int col, str_int row]"
    using assms split_tile_name by (simp only: apply_tile_modifiers_name)
  then show ?thesis
    by (simp add: py_index_def py_int_str_int Let_def)
qed

lemma place_tile_name:
  "place_tile cfg row col min_z = Inr t \<Longrightarrow> tile_name t = ''Tile_'' @ str_int col @ ''_'' @ str_int row"
  by (auto simp add: place_tile_def Let_def add_corner_magnets_name add_boolean_def
      split: sum.splits if_splits)

lemma place_tile_mod_names:
  assumes "place_tile cfg row col min_z = Inr t"
  shows "map mod_name (tile_modifiers t) =
     [''Difference'', ''MagnetHole_0'', ''MagnetCountersink_0'', ''MagnetHole_1'',
      ''MagnetCountersink_1'', ''MagnetHole_2'', ''MagnetCountersink_2'', ''MagnetHole_3'',
      ''MagnetCountersink_3'']"
  using assms
  by (auto simp add: place_tile_def Let_def add_corner_magnets_mod_names add_boolean_def
      split: sum.splits if_splits)

lemma place_tile_raw:
  assumes "place_tile cfg row col min_z = Inr t"
  shows "subtractions (tile_mesh t) = []"
  using assms
  by (auto simp add: place_tile_def Let_def add_corner_magnets_mesh add_boolean_def
      split: sum.splits if_splits)

lemma place_tile_subtractions:
  assumes "place_tile cfg row col min_z = Inr t"
    and "\<And>obj n. \<not> boolean_fails h obj n"
  shows "map obj_name (subtractions (tile_mesh (apply_tile_modifiers h t))) =
     [''CityMesh'',
      ''MagnetHole_'' @ str_int col @ ''_'' @ str_int row @ ''_0'',
      ''MagnetCountersink_'' @ str_int col @ ''_'' @ str_int row @ ''_0'',
      ''MagnetHole_'' @ str_int col @ ''_'' @ str_int row @ ''_1'',
      ''MagnetCountersink_'' @ str_int col @ ''_'' @ str_int row @ ''_1'',
      ''MagnetHole_'' @ str_int col @ ''_'' @ str_int row @ ''_2'',
      ''MagnetCountersink_'' @ str_int col @ ''_'' @ str_int row @ ''_2'',
      ''MagnetHole_'' @ str_int col @ ''_'' @ str_int row @ ''_3'',
      ''MagnetCountersink_'' @ str_int col @ ''_'' @ str_int row @ ''_3'']"
proof -
  from assms(1) obtain b where q: "quantized_bottom cfg min_z = Inr b" and s: "TILE_SIZE cfg \<noteq> 0"
    by (auto simp add: place_tile_def Let_def split: sum.splits if_splits)
  from assms(1) have t: "t = projr (place_tile cfg row col min_z)" by simp
  show ?thesis
    unfolding t place_tile_eq [OF q s]
    by (simp add: add_corner_magnets_def magnet_step_def add_boolean_def enumerate_simps
        str_nat_small apply_tile_modifiers_def apply_modifiers_def modifier_apply_def
        magnet_mods_def is_magnet_mod_def city_cutter_def Let_def assms(2))
qed

lemma place_tile_magnet_mods:
  assumes "place_tile cfg row col min_z = Inr t"
  shows "magnet_mods (apply_modifiers h t (Some [''Difference''])) =
     [''MagnetHole_0'', ''MagnetCountersink_0'', ''MagnetHole_1'', ''MagnetCountersink_1'',
      ''MagnetHole_2'', ''MagnetCountersink_2'', ''MagnetHole_3'', ''MagnetCountersink_3'']"
proof -
  from assms obtain b where q: "quantized_bottom cfg min_z = Inr b" and s: "TILE_SIZE cfg \<noteq> 0"
    by (auto simp add: place_tile_def Let_def split: sum.splits if_splits)
  from assms have t: "t = projr (place_tile cfg row col min_z)" by simp
  show ?thesis
    unfolding t place_tile_eq [OF q s]
    by (simp add: add_corner_magnets_def magnet_step_def add_boolean_def enumerate_simps
        str_nat_small apply_modifiers_def modifier_apply_def
        magnet_mods_def is_magnet_mod_def city_cutter_def Let_def)
qed

lemma fst_export_tile:
  "fst (export_tile obj row col) = ''output/tiles/tile_'' @ str_int col @ ''_'' @ str_int row @ ''.stl''"
  by (simp add: export_tile_def)

lemma main_single_populated:
  assumes "SINGLE_TILE_MODE cfg" and "ensure_dirs h = Inr ()"
    and "min_z_in_tile cfg city (SINGLE_TILE_ROW cfg) (SINGLE_TILE_COL cfg) = Some min_z"
    and "place_tile cfg (SINGLE_TILE_ROW cfg) (SINGLE_TILE_COL cfg) min_z = Inr t"
  shows "main h cfg city =
    Inr \<lparr> files = [(''output/tiles/tile_'' @ str_int (SINGLE_TILE_COL cfg) @ ''_''
                      @ str_int (SINGLE_TILE_ROW cfg) @ ''.stl'',
                    tile_mesh (apply_tile_modifiers h t))],
          stdout = [''Exported: output/tiles/tile_'' @ str_int (SINGLE_TILE_COL cfg) @ ''_''
                      @ str_int (SINGLE_TILE_ROW cfg) @ ''.stl'',
                    ''Created 1 tile(s) with city cut, 2 cm-quantized underside, and four corner magnet holes.''] \<rparr>"
proof -
  have p: "process_tile cfg city (SINGLE_TILE_ROW cfg) (SINGLE_TILE_COL cfg) [] = Inr [t]"
    using assms(3,4) by (simp add: process_tile_def)
  have e: "export_tiles h [t] \<lparr> files = [], stdout = [] \<rparr> =
    Inr \<lparr> files = [(''output/tiles/tile_'' @ str_int (SINGLE_TILE_COL cfg) @ ''_''
                      @ str_int (SINGLE_TILE_ROW cfg) @ ''.stl'',
                    tile_mesh (apply_tile_modifiers h t))],
          stdout = [''Exported: output/tiles/tile_'' @ str_int (SINGLE_TILE_COL cfg) @ ''_''
                      @ str_int (SINGLE_TILE_ROW cfg) @ ''.stl''] \<rparr>"
    by (subst export_tiles_named [OF place_tile_name [OF assms(4)]])
       (simp add: export_tile_def)
  show ?thesis
    using assms(1,2) by (simp add: main_def p e str_int_1 del: export_tiles.simps)
qed

lemma place_tile_total:
  assumes "TILE_SIZE cfg \<noteq> 0" and "QUANTIZE_FILL cfg \<longrightarrow> FILL_LAYER_THICKNESS cfg \<noteq> 0"
  shows "\<exists>t. place_tile cfg row col min_z = Inr t"
proof -
  have "\<exists>b. quantized_bottom cfg min_z = Inr b"
    using assms(2) by (cases "QUANTIZE_FILL cfg") (simp_all add: quantized_bottom_def Let_def)
  then obtain b where "quantized_bottom cfg min_z = Inr b" ..
  from place_tile_eq [OF this assms(1)] show ?thesis by blast
qed

text \<open>
  Which host applies the modifiers changes neither the error that ends a run nor the paths
  written nor the lines printed: the export loop takes them from the names of the tiles.
\<close>

lemma export_tiles_report:
  assumes "map fst (files out) = map fst (files out')" and "stdout out = stdout out'"
  shows "paths_and_stdout (export_tiles h ts out) = paths_and_stdout (export_tiles h' ts out')"
  using assms
proof (induction ts arbitrary: out out')
  case Nil
  then show ?case by (simp add: paths_and_stdout_def)
next
  case (Cons t ts)
  let ?parts = "split_on CHR ''_'' (tile_name t)"
  show ?case
  proof (cases "py_index ?parts 2")
    case Inl
    then show ?thesis by (simp add: Let_def apply_tile_modifiers_name paths_and_stdout_def)
  next
    case rs: (Inr rs)
    show ?thesis
    proof (cases "py_int rs")
      case Inl
      with rs show ?thesis by (simp add: Let_def apply_tile_modifiers_name paths_and_stdout_def)
    next
      case row: (Inr row)
      show ?thesis
      proof (cases "py_index ?parts 1")
        case Inl
        with rs row show ?thesis
          by (simp add: Let_def apply_tile_modifiers_name paths_and_stdout_def)
      next
        case cs: (Inr cs)
        show ?thesis
        proof (cases "py_int cs")
          case Inl
          with rs row cs show ?thesis
            by (simp add: Let_def apply_tile_modifiers_name paths_and_stdout_def)
        next
          case col: (Inr col)
          let ?w = "export_tile (apply_tile_modifiers h t) row col"
          let ?w' = "export_tile (apply_tile_modifiers h' t) row col"
          have "paths_and_stdout
                  (export_tiles h ts
                     (out\<lparr>files := files out @ [?w],
                          stdout := stdout out @ [''Exported: '' @ fst ?w]\<rparr>))
                = paths_and_stdout
                  (export_tiles h' ts
                     (out'\<lparr>files := files out' @ [?w'],
                           stdout := stdout out' @ [''Exported: '' @ fst ?w']\<rparr>))"
            by (rule Cons.IH) (simp_all add: Cons.prems fst_export_tile)
          with rs row cs col show ?thesis
            by (simp add: Let_def apply_tile_modifiers_name)
        qed
      qed
    qed
  qed
qed

lemma main_report:
  assumes "ensure_dirs h = ensure_dirs h'"
  shows "paths_and_stdout (main h cfg city) = paths_and_stdout (main h' cfg city)"
proof (cases "ensure_dirs h'")
  case Inl
  with assms show ?thesis by (simp add: main_def)
next
  case u: (Inr u)
  let ?tiles = "if SINGLE_TILE_MODE cfg
                 then process_tile cfg city (SINGLE_TILE_ROW cfg) (SINGLE_TILE_COL cfg) []
                 else process_tiles cfg city (grid_indices cfg) []"
  show ?thesis
  proof (cases ?tiles)
    case Inl
    with assms u show ?thesis by (simp add: main_def)
  next
    case ts: (Inr tiles)
    have e: "paths_and_stdout (export_tiles h tiles \<lparr> files = [], stdout = [] \<rparr>)
           = paths_and_stdout (export_tiles h' tiles \<lparr> files = [], stdout = [] \<rparr>)"
      by (rule export_tiles_report) simp_all
    show ?thesis
    proof (cases "export_tiles h tiles \<lparr> files = [], stdout = [] \<rparr>")
      case l: (Inl e1)
      with e obtain e2 where "export_tiles h' tiles \<lparr> files = [], stdout = [] \<rparr> = Inl e2"
        and "e2 = e1"
        by (cases "export_tiles h' tiles \<lparr> files = [], stdout = [] \<rparr>")
           (simp_all add: paths_and_stdout_def)
      with l assms u ts show ?thesis by (simp add: main_def)
    next
      case r: (Inr o1)
      with e obtain o2 where r': "export_tiles h' tiles \<lparr> files = [], stdout = [] \<rparr> = Inr o2"
        and "map fst (files o2) = map fst (files o1)" and "stdout o2 = stdout o1"
        by (cases "export_tiles h' tiles \<lparr> files = [], stdout = [] \<rparr>")
           (simp_all add: paths_and_stdout_def)
      with r assms u ts show ?thesis by (simp add: main_def paths_and_stdout_def Let_def)
    qed
  qed
qed

subsection \<open>CSG combiner\<close>

lemma sample_place_tile: "\<exists>t. place_tile default_config 1 2 0.137 = Inr t"
  by (rule place_tile_total) (simp_all add: default_config_def)

lemma sample_single: "SINGLE_TILE_MODE default_config \<and> SINGLE_TILE_ROW default_config = 1
   \<and> SINGLE_TILE_COL default_config = 2"
  by (simp add: default_config_def)

lemma sample_host_never_fails: "\<not> boolean_fails sample_host obj n"
  by (simp add: sample_host_def)

lemma str_int_2: "str_int 2 = ''2''"
  by code_simp

text \<open>
  Claim C5, as the code has it. For a populated tile the enclosure is built first, as a raw
  cube; its modifier stack is the city difference followed, corner by corner, by the bore
  and the countersink of that corner; \<open>main\<close> applies the city difference first and then
  the magnet modifiers in the order of the stack, whether or not the city difference
  failed. When no boolean fails, the cutters are subtracted in the order: city mesh, bore
  0, countersink 0, bore 1, countersink 1, bore 2, countersink 2, bore 3, countersink 3.
\<close>

theorem fixture_cut_order:
  assumes "min_z_in_tile cfg city row col = Some min_z"
    and "place_tile cfg row col min_z = Inr t"
  shows "process_tile cfg city row col tiles = Inr (tiles @ [t])
    \<and> subtractions (tile_mesh t) = []
    \<and> map mod_name (tile_modifiers t) =
        [''Difference'', ''MagnetHole_0'', ''MagnetCountersink_0'', ''MagnetHole_1'',
         ''MagnetCountersink_1'', ''MagnetHole_2'', ''MagnetCountersink_2'', ''MagnetHole_3'',
         ''MagnetCountersink_3'']
    \<and> magnet_mods (apply_modifiers h t (Some [''Difference''])) =
        [''MagnetHole_0'', ''MagnetCountersink_0'', ''MagnetHole_1'', ''MagnetCountersink_1'',
         ''MagnetHole_2'', ''MagnetCountersink_2'', ''MagnetHole_3'', ''MagnetCountersink_3'']
    \<and> ((\<forall>obj n. \<not> boolean_fails h obj n) \<longrightarrow>
         map obj_name (subtractions (tile_mesh (apply_tile_modifiers h t))) =
           [''CityMesh'',
            ''MagnetHole_'' @ str_int col @ ''_'' @ str_int row @ ''_0'',
            ''MagnetCountersink_'' @ str_int col @ ''_'' @ str_int row @ ''_0'',
            ''MagnetHole_'' @ str_int col @ ''_'' @ str_int row @ ''_1'',
            ''MagnetCountersink_'' @ str_int col @ ''_'' @ str_int row @ ''_1'',
            ''MagnetHole_'' @ str_int col @ ''_'' @ str_int row @ ''_2'',
            ''MagnetCountersink_'' @ str_int col @ ''_'' @ str_int row @ ''_2'',
            ''MagnetHole_'' @ str_int col @ ''_'' @ str_int row @ ''_3'',
            ''MagnetCountersink_'' @ str_int col @ ''_'' @ str_int row @ ''_3''])"
proof (intro conjI impI)
  show "process_tile cfg city row col tiles = Inr (tiles @ [t])"
    using assms by (simp add: process_tile_def)
  show "subtractions (tile_mesh t) = []"
    using assms(2) by (rule place_tile_raw)
  show "map mod_name (tile_modifiers t) =
        [''Difference'', ''MagnetHole_0'', ''MagnetCountersink_0'', ''MagnetHole_1'',
         ''MagnetCountersink_1'', ''MagnetHole_2'', ''MagnetCountersink_2'', ''MagnetHole_3'',
         ''MagnetCountersink_3'']"
    using assms(2) by (rule place_tile_mod_names)
  show "magnet_mods (apply_modifiers h t (Some [''Difference''])) =
        [''MagnetHole_0'', ''MagnetCountersink_0'', ''MagnetHole_1'', ''MagnetCountersink_1'',
         ''MagnetHole_2'', ''MagnetCountersink_2'', ''MagnetHole_3'', ''MagnetCountersink_3'']"
    using assms(2) by (rule place_tile_magnet_mods)
next
  assume "\<forall>obj n. \<not> boolean_fails h obj n"
  then have "\<And>obj n. \<not> boolean_fails h obj n" by blast
  with assms(2) show "map obj_name (subtractions (tile_mesh (apply_tile_modifiers h t))) =
           [''CityMesh'',
            ''MagnetHole_'' @ str_int col @ ''_'' @ str_int row @ ''_0'',
            ''MagnetCountersink_'' @ str_int col @ ''_'' @ str_int row @ ''_0'',
            ''MagnetHole_'' @ str_int col @ ''_'' @ str_int row @ ''_1'',
            ''MagnetCountersink_'' @ str_int col @ ''_'' @ str_int row @ ''_1'',
            ''MagnetHole_'' @ str_int col @ ''_'' @ str_int row @ ''_2'',
            ''MagnetCountersink_'' @ str_int col @ ''_'' @ str_int row @ ''_2'',
            ''MagnetHole_'' @ str_int col @ ''_'' @ str_int row @ ''_3'',
            ''MagnetCountersink_'' @ str_int col @ ''_'' @ str_int row @ ''_3'']"
    by (rule place_tile_subtractions)
qed

theorem fixture_cut_order_witness:
  "min_z_in_tile default_config sample_city 1 2 = Some 0.137
   \<and> \<not> isl (place_tile default_config 1 2 0.137)
   \<and> (\<forall>obj n. \<not> boolean_fails sample_host obj n)
   \<and> map obj_name (subtractions (tile_mesh
         (apply_tile_modifiers sample_host (projr (place_tile default_config 1 2 0.137))))) =
       [''CityMesh'', ''MagnetHole_2_1_0'', ''MagnetCountersink_2_1_0'', ''MagnetHole_2_1_1'',
        ''MagnetCountersink_2_1_1'', ''MagnetHole_2_1_2'', ''MagnetCountersink_2_1_2'',
        ''MagnetHole_2_1_3'', ''MagnetCountersink_2_1_3'']"
proof -
  obtain t where t: "place_tile default_config 1 2 0.137 = Inr t"
    using sample_place_tile by blast
  from fixture_cut_order [OF sample_min_z t, of "[]" sample_host] sample_host_never_fails
  have "map obj_name (subtractions (tile_mesh (apply_tile_modifiers sample_host t))) =
       [''CityMesh'', ''MagnetHole_2_1_0'', ''MagnetCountersink_2_1_0'', ''MagnetHole_2_1_1'',
        ''MagnetCountersink_2_1_1'', ''MagnetHole_2_1_2'', ''MagnetCountersink_2_1_2'',
        ''MagnetHole_2_1_3'', ''MagnetCountersink_2_1_3'']"
    by (simp add: str_int_1 str_int_2)
  with t sample_min_z sample_host_never_fails show ?thesis by simp
qed

text \<open>
  Claim C5 as stated has all four bores subtracted before any countersink. In the sample
  run countersink 0 is subtracted before bores 1, 2 and 3.
\<close>

theorem bores_before_countersinks_counterexample:
  "\<not> bores_before_countersinks
       (map obj_name (subtractions (tile_mesh
          (apply_tile_modifiers sample_host (projr (place_tile default_config 1 2 0.137))))))"
proof -
  obtain t where t: "place_tile default_config 1 2 0.137 = Inr t"
    using sample_place_tile by blast
  have "\<not> bores_before_countersinks
       (map obj_name (subtractions (tile_mesh (apply_tile_modifiers sample_host t))))"
    by (simp add: place_tile_subtractions [OF t sample_host_never_fails]
        is_bore_name_def is_countersink_name_def)
  with t show ?thesis by simp
qed

lemma failing_ensure_dirs: "ensure_dirs failing_host = Inr ()"
  by (simp add: ensure_dirs_def failing_host_def)

lemma failing_subtractions:
  assumes "place_tile cfg row col min_z = Inr t"
  shows "map obj_name (subtractions (tile_mesh (apply_tile_modifiers failing_host t))) =
     [''CityMesh'',
      ''MagnetCountersink_'' @ str_int col @ ''_'' @ str_int row @ ''_0'',
      ''MagnetHole_'' @ str_int col @ ''_'' @ str_int row @ ''_1'',
      ''MagnetCountersink_'' @ str_int col @ ''_'' @ str_int row @ ''_1'',
      ''MagnetHole_'' @ str_int col @ ''_'' @ str_int row @ ''_2'',
      ''MagnetCountersink_'' @ str_int col @ ''_'' @ str_int row @ ''_2'',
      ''MagnetHole_'' @ str_int col @ ''_'' @ str_int row @ ''_3'',
      ''MagnetCountersink_'' @ str_int col @ ''_'' @ str_int row @ ''_3'']"
proof -
  from assms obtain b where q: "quantized_bottom cfg min_z = Inr b" and s: "TILE_SIZE cfg \<noteq> 0"
    by (auto simp add: place_tile_def Let_def split: sum.splits if_splits)
  from assms have t: "t = projr (place_tile cfg row col min_z)" by simp
  show ?thesis
    unfolding t place_tile_eq [OF q s]
    by (simp add: add_corner_magnets_def magnet_step_def add_boolean_def enumerate_simps
        str_nat_small apply_tile_modifiers_def apply_modifiers_def modifier_apply_def
        magnet_mods_def is_magnet_mod_def city_cutter_def Let_def failing_host_def)
qed

text \<open>
  Claim C6, as the code has it. When the boolean of a step fails, \<open>modifier_apply\<close> raises
  and leaves the object as it was; \<open>apply_modifiers\<close> catches the error and goes on with
  the remaining names on the unmodified geometry. Nothing is logged: whether the run ends
  with an error, the paths it writes and the lines it prints are the same whichever
  booleans fail, so a failure never aborts the run and never shows in its output.
\<close>

theorem boolean_failure_is_silent:
  "(boolean_fails h obj name \<longrightarrow> modifier_apply h obj name = None)
   \<and> (modifier_apply h obj name = None \<longrightarrow>
        apply_modifiers h obj (Some (name # rest)) = apply_modifiers h obj (Some rest))
   \<and> paths_and_stdout (main (h\<lparr>boolean_fails := f\<rparr>) cfg city) = paths_and_stdout (main h cfg city)"
proof (intro conjI impI)
  assume "boolean_fails h obj name"
  then show "modifier_apply h obj name = None"
    by (simp add: modifier_apply_def split: option.splits)
next
  assume "modifier_apply h obj name = None"
  then show "apply_modifiers h obj (Some (name # rest)) = apply_modifiers h obj (Some rest)"
    by (simp add: apply_modifiers_def)
next
  have "ensure_dirs (h\<lparr>boolean_fails := f\<rparr>) = ensure_dirs h"
    by (simp add: ensure_dirs_def)
  then show "paths_and_stdout (main (h\<lparr>boolean_fails := f\<rparr>) cfg city)
      = paths_and_stdout (main h cfg city)"
    by (rule main_report)
qed

lemma sample_report:
  "paths_and_stdout (main sample_host default_config sample_city) =
     Inr ([''output/tiles/tile_2_1.stl''],
          [''Exported: output/tiles/tile_2_1.stl'',
           ''Created 1 tile(s) with city cut, 2 cm-quantized underside, and four corner magnet holes.''])"
proof -
  obtain t where t: "place_tile default_config 1 2 0.137 = Inr t"
    using sample_place_tile by blast
  have "main sample_host default_config sample_city =
    Inr \<lparr> files = [(''output/tiles/tile_'' @ str_int (SINGLE_TILE_COL default_config) @ ''_''
                      @ str_int (SINGLE_TILE_ROW default_config) @ ''.stl'',
                    tile_mesh (apply_tile_modifiers sample_host t))],
          stdout = [''Exported: output/tiles/tile_'' @ str_int (SINGLE_TILE_COL default_config) @ ''_''
                      @ str_int (SINGLE_TILE_ROW default_config) @ ''.stl'',
                    ''Created 1 tile(s) with city cut, 2 cm-quantized underside, and four corner magnet holes.''] \<rparr>"
    using sample_single sample_ensure_dirs sample_min_z t
    by (intro main_single_populated) simp_all
  then show ?thesis
    using sample_single by (simp add: paths_and_stdout_def str_int_1 str_int_2)
qed

theorem boolean_failure_is_silent_witness:
  "boolean_fails failing_host (projr (place_tile default_config 1 2 0.137)) ''MagnetHole_0''
   \<and> modifier_apply failing_host (projr (place_tile default_config 1 2 0.137)) ''MagnetHole_0''
       = None
   \<and> apply_modifiers failing_host (projr (place_tile default_config 1 2 0.137))
         (Some [''MagnetHole_0'', ''MagnetCountersink_0''])
       = apply_modifiers failing_host (projr (place_tile default_config 1 2 0.137))
           (Some [''MagnetCountersink_0''])
   \<and> paths_and_stdout (main failing_host default_config sample_city)
       = paths_and_stdout (main sample_host default_config sample_city)"
proof -
  let ?obj = "projr (place_tile default_config 1 2 0.137)"
  have f: "boolean_fails failing_host ?obj ''MagnetHole_0''"
    by (simp add: failing_host_def)
  have e: "failing_host = sample_host\<lparr>boolean_fails := (\<lambda>t n. n = ''MagnetHole_0'')\<rparr>"
    by (simp add: failing_host_def sample_host_def)
  note w = boolean_failure_is_silent [of failing_host ?obj "''MagnetHole_0''"
      "[''MagnetCountersink_0'']"]
  note v = boolean_failure_is_silent [of sample_host ?obj "''MagnetHole_0''" "[]"
      "\<lambda>t n. n = ''MagnetHole_0''" default_config sample_city]
  from w f have "modifier_apply failing_host ?obj ''MagnetHole_0'' = None
    \<and> apply_modifiers failing_host ?obj (Some [''MagnetHole_0'', ''MagnetCountersink_0''])
       = apply_modifiers failing_host ?obj (Some [''MagnetCountersink_0''])"
    by blast
  moreover from v e have "paths_and_stdout (main failing_host default_config sample_city)
       = paths_and_stdout (main sample_host default_config sample_city)"
    by simp
  ultimately show ?thesis using f by blast
qed

text \<open>
  Claim C6 as stated has a warning logged for the tile and the step, and no silent success
  with wrong geometry. In the sample run with the first bore failing, the printed lines are
  the export line and the count, as without the failure, and the exported mesh lacks
  bore 0.
\<close>

theorem boolean_failure_counterexample:
  "boolean_fails failing_host (projr (place_tile default_config 1 2 0.137)) ''MagnetHole_0''
   \<and> paths_and_stdout (main failing_host default_config sample_city) =
       Inr ([''output/tiles/tile_2_1.stl''],
            [''Exported: output/tiles/tile_2_1.stl'',
             ''Created 1 tile(s) with city cut, 2 cm-quantized underside, and four corner magnet holes.''])
   \<and> map obj_name (subtractions (tile_mesh
         (apply_tile_modifiers failing_host (projr (place_tile default_config 1 2 0.137))))) =
       [''CityMesh'', ''MagnetCountersink_2_1_0'', ''MagnetHole_2_1_1'',
        ''MagnetCountersink_2_1_1'', ''MagnetHole_2_1_2'', ''MagnetCountersink_2_1_2'',
        ''MagnetHole_2_1_3'', ''MagnetCountersink_2_1_3'']"
proof -
  obtain t where t: "place_tile default_config 1 2 0.137 = Inr t"
    using sample_place_tile by blast
  have "ensure_dirs failing_host = ensure_dirs sample_host"
    by (simp add: failing_ensure_dirs sample_ensure_dirs)
  then have "paths_and_stdout (main failing_host default_config sample_city)
      = paths_and_stdout (main sample_host default_config sample_city)"
    by (rule main_report)
  moreover have "boolean_fails failing_host t ''MagnetHole_0''"
    by (simp add: failing_host_def)
  moreover have "map obj_name (subtractions (tile_mesh (apply_tile_modifiers failing_host t))) =
       [''CityMesh'', ''MagnetCountersink_2_1_0'', ''MagnetHole_2_1_1'',
        ''MagnetCountersink_2_1_1'', ''MagnetHole_2_1_2'', ''MagnetCountersink_2_1_2'',
        ''MagnetHole_2_1_3'', ''MagnetCountersink_2_1_3'']"
    by (simp add: failing_subtractions [OF t] str_int_1 str_int_2)
  ultimately show ?thesis using t sample_report by simp
qed

subsection \<open>Enclosure height\<close>

lemma place_tile_mesh:
  assumes "quantized_bottom cfg min_z = Inr b" and "TILE_SIZE cfg \<noteq> 0"
    and "place_tile cfg row col min_z = Inr t"
  shows "tile_mesh t =
     Raw (CubePrim (TILE_SIZE cfg)
            (of_int col * TILE_SIZE cfg + TILE_SIZE cfg / 2,
             of_int row * TILE_SIZE cfg + TILE_SIZE cfg / 2,
             b + (min_z + TILE_SIZE cfg / 2 - b) / 2)
            ((min_z + TILE_SIZE cfg / 2 - b) / TILE_SIZE cfg))"
  using assms(3) unfolding place_tile_eq [OF assms(1,2)]
  by (auto simp add: add_corner_magnets_mesh add_boolean_def)

text \<open>
  Claim C2, as the code has it. For a populated tile whose bottom is at or above its top,
  \<open>process_tile\<close> reports nothing: it builds the cube with the height \<open>top - bottom\<close>, which
  is not positive, appends the tile, and the loop goes on with the next index; a
  single-tile run exports the tile and prints the export line and the count.
\<close>

theorem inverted_enclosure_is_built:
  assumes "min_z_in_tile cfg city row col = Some min_z"
    and "quantized_bottom cfg min_z = Inr bottom_z"
    and "TILE_SIZE cfg \<noteq> 0"
    and "min_z + TILE_SIZE cfg / 2 \<le> bottom_z"
  shows "\<exists>t. process_tile cfg city row col tiles = Inr (tiles @ [t])
     \<and> tile_mesh t =
         Raw (CubePrim (TILE_SIZE cfg)
                (of_int col * TILE_SIZE cfg + TILE_SIZE cfg / 2,
                 of_int row * TILE_SIZE cfg + TILE_SIZE cfg / 2,
                 bottom_z + (min_z + TILE_SIZE cfg / 2 - bottom_z) / 2)
                ((min_z + TILE_SIZE cfg / 2 - bottom_z) / TILE_SIZE cfg))
     \<and> min_z + TILE_SIZE cfg / 2 - bottom_z \<le> 0
     \<and> process_tiles cfg city ((row, col) # rest) tiles
         = process_tiles cfg city rest (tiles @ [t])
     \<and> (SINGLE_TILE_MODE cfg \<and> SINGLE_TILE_ROW cfg = row \<and> SINGLE_TILE_COL cfg = col
          \<and> ensure_dirs h = Inr () \<longrightarrow>
         paths_and_stdout (main h cfg city) =
           Inr ([''output/tiles/tile_'' @ str_int col @ ''_'' @ str_int row @ ''.stl''],
                [''Exported: output/tiles/tile_'' @ str_int col @ ''_'' @ str_int row @ ''.stl'',
                 ''Created 1 tile(s) with city cut, 2 cm-quantized underside, and four corner magnet holes.'']))"
proof -
  obtain t where t: "place_tile cfg row col min_z = Inr t"
    using place_tile_eq [OF assms(2,3)] by blast
  have p: "process_tile cfg city row col tiles = Inr (tiles @ [t])"
    using assms(1) t by (simp add: process_tile_def)
  have m: "tile_mesh t =
         Raw (CubePrim (TILE_SIZE cfg)
                (of_int col * TILE_SIZE cfg + TILE_SIZE cfg / 2,
                 of_int row * TILE_SIZE cfg + TILE_SIZE cfg / 2,
                 bottom_z + (min_z + TILE_SIZE cfg / 2 - bottom_z) / 2)
                ((min_z + TILE_SIZE cfg / 2 - bottom_z) / TILE_SIZE cfg))"
    using assms(2,3) t by (rule place_tile_mesh)
  have n: "min_z + TILE_SIZE cfg / 2 - bottom_z \<le> 0"
    using assms(4) by simp
  have l: "process_tiles cfg city ((row, col) # rest) tiles
         = process_tiles cfg city rest (tiles @ [t])"
    using p by simp
  have r: "paths_and_stdout (main h cfg city) =
           Inr ([''output/tiles/tile_'' @ str_int col @ ''_'' @ str_int row @ ''.stl''],
                [''Exported: output/tiles/tile_'' @ str_int col @ ''_'' @ str_int row @ ''.stl'',
                 ''Created 1 tile(s) with city cut, 2 cm-quantized underside, and four corner magnet holes.''])"
    if s: "SINGLE_TILE_MODE cfg \<and> SINGLE_TILE_ROW cfg = row \<and> SINGLE_TILE_COL cfg = col
          \<and> ensure_dirs h = Inr ()"
  proof -
    from s assms(1) t have
      "min_z_in_tile cfg city (SINGLE_TILE_ROW cfg) (SINGLE_TILE_COL cfg) = Some min_z"
      "place_tile cfg (SINGLE_TILE_ROW cfg) (SINGLE_TILE_COL cfg) min_z = Inr t"
      by simp_all
    with s have "main h cfg city =
      Inr \<lparr> files = [(''output/tiles/tile_'' @ str_int (SINGLE_TILE_COL cfg) @ ''_''
                      @ str_int (SINGLE_TILE_ROW cfg) @ ''.stl'',
                    tile_mesh (apply_tile_modifiers h t))],
          stdout = [''Exported: output/tiles/tile_'' @ str_int (SINGLE_TILE_COL cfg) @ ''_''
                      @ str_int (SINGLE_TILE_ROW cfg) @ ''.stl'',
                    ''Created 1 tile(s) with city cut, 2 cm-quantized underside, and four corner magnet holes.''] \<rparr>"
      by (intro main_single_populated) simp_all
    with s show ?thesis by (simp add: paths_and_stdout_def)
  qed
  from p m n l r show ?thesis by blast
qed

lemma inverted_min_z: "min_z_in_tile inverted_config sample_city 1 2 = Some 0.137"
  by (simp add: min_z_in_tile_def tile_aabb_def in_tile_def sample_city_def
      inverted_config_def default_config_def)

lemma inverted_bottom: "quantized_bottom inverted_config 0.137 = Inr 0.619999"
  by (simp add: quantized_bottom_def inverted_config_def default_config_def)

lemma inverted_size: "TILE_SIZE inverted_config \<noteq> 0"
  by (simp add: inverted_config_def default_config_def)

lemma inverted_top: "0.137 + TILE_SIZE inverted_config / 2 \<le> (0.619999 :: real)"
  by (simp add: inverted_config_def default_config_def)

lemma inverted_single: "SINGLE_TILE_MODE inverted_config \<and> SINGLE_TILE_ROW inverted_config = 1
   \<and> SINGLE_TILE_COL inverted_config = 2"
  by (simp add: inverted_config_def default_config_def)

theorem inverted_enclosure_is_built_witness:
  "min_z_in_tile inverted_config sample_city 1 2 = Some 0.137
   \<and> quantized_bottom inverted_config 0.137 = Inr 0.619999
   \<and> TILE_SIZE inverted_config \<noteq> 0
   \<and> 0.137 + TILE_SIZE inverted_config / 2 \<le> (0.619999 :: real)
   \<and> (\<exists>t. process_tile inverted_config sample_city 1 2 [] = Inr [t]
         \<and> tile_mesh t = Raw (CubePrim 0.2 (0.5, 0.3, 0.4284995) (- 1.914995)))
   \<and> paths_and_stdout (main sample_host inverted_config sample_city) =
       Inr ([''output/tiles/tile_2_1.stl''],
            [''Exported: output/tiles/tile_2_1.stl'',
             ''Created 1 tile(s) with city cut, 2 cm-quantized underside, and four corner magnet holes.''])"
proof -
  from inverted_enclosure_is_built [OF inverted_min_z inverted_bottom inverted_size inverted_top,
      of "[]" "[]" sample_host]
  obtain t where p: "process_tile inverted_config sample_city 1 2 [] = Inr ([] @ [t])"
    and m: "tile_mesh t =
         Raw (CubePrim (TILE_SIZE inverted_config)
                (of_int 2 * TILE_SIZE inverted_config + TILE_SIZE inverted_config / 2,
                 of_int 1 * TILE_SIZE inverted_config + TILE_SIZE inverted_config / 2,
                 0.619999 + (0.137 + TILE_SIZE inverted_config / 2 - 0.619999) / 2)
                ((0.137 + TILE_SIZE inverted_config / 2 - 0.619999) / TILE_SIZE inverted_config))"
    and r: "SINGLE_TILE_MODE inverted_config \<and> SINGLE_TILE_ROW inverted_config = 1
          \<and> SINGLE_TILE_COL inverted_config = 2 \<and> ensure_dirs sample_host = Inr () \<longrightarrow>
         paths_and_stdout (main sample_host inverted_config sample_city) =
           Inr ([''output/tiles/tile_'' @ str_int 2 @ ''_'' @ str_int 1 @ ''.stl''],
                [''Exported: output/tiles/tile_'' @ str_int 2 @ ''_'' @ str_int 1 @ ''.stl'',
                 ''Created 1 tile(s) with city cut, 2 cm-quantized underside, and four corner magnet holes.''])"
    by blast
  from m have "tile_mesh t = Raw (CubePrim 0.2 (0.5, 0.3, 0.4284995) (- 1.914995))"
    by (simp add: inverted_config_def default_config_def)
  with p have "\<exists>t. process_tile inverted_config sample_city 1 2 [] = Inr [t]
         \<and> tile_mesh t = Raw (CubePrim 0.2 (0.5, 0.3, 0.4284995) (- 1.914995))"
    by simp
  moreover from r inverted_single sample_ensure_dirs
  have "paths_and_stdout (main sample_host inverted_config sample_city) =
       Inr ([''output/tiles/tile_2_1.stl''],
            [''Exported: output/tiles/tile_2_1.stl'',
             ''Created 1 tile(s) with city cut, 2 cm-quantized underside, and four corner magnet holes.''])"
    by (simp add: str_int_1 str_int_2)
  ultimately show ?thesis
    using inverted_min_z inverted_bottom inverted_size inverted_top by blast
qed

text \<open>
  Claim C2 as stated has such a tile reported as an error and abandoned. With a base depth
  of -0.5 the sample tile has its bottom at 0.619999 and its top at 0.237; the run ends
  without an error, writes the tile's file and prints nothing else.
\<close>

theorem invalid_enclosure_counterexample:
  "min_z_in_tile inverted_config sample_city 1 2 = Some 0.137
   \<and> quantized_bottom inverted_config 0.137 = Inr 0.619999
   \<and> 0.137 + TILE_SIZE inverted_config / 2 \<le> (0.619999 :: real)
   \<and> paths_and_stdout (main sample_host inverted_config sample_city) =
       Inr ([''output/tiles/tile_2_1.stl''],
            [''Exported: output/tiles/tile_2_1.stl'',
             ''Created 1 tile(s) with city cut, 2 cm-quantized underside, and four corner magnet holes.''])"
proof -
  obtain t where t: "place_tile inverted_config 1 2 0.137 = Inr t"
    using place_tile_eq [OF inverted_bottom inverted_size] by blast
  have "main sample_host inverted_config sample_city =
    Inr \<lparr> files = [(''output/tiles/tile_'' @ str_int (SINGLE_TILE_COL inverted_config) @ ''_''
                      @ str_int (SINGLE_TILE_ROW inverted_config) @ ''.stl'',
                    tile_mesh (apply_tile_modifiers sample_host t))],
          stdout = [''Exported: output/tiles/tile_'' @ str_int (SINGLE_TILE_COL inverted_config) @ ''_''
                      @ str_int (SINGLE_TILE_ROW inverted_config) @ ''.stl'',
                    ''Created 1 tile(s) with city cut, 2 cm-quantized underside, and four corner magnet holes.''] \<rparr>"
    using inverted_single sample_ensure_dirs inverted_min_z t
    by (intro main_single_populated) simp_all
  then have "paths_and_stdout (main sample_host inverted_config sample_city) =
       Inr ([''output/tiles/tile_2_1.stl''],
            [''Exported: output/tiles/tile_2_1.stl'',
             ''Created 1 tile(s) with city cut, 2 cm-quantized underside, and four corner magnet holes.''])"
    using inverted_single by (simp add: paths_and_stdout_def str_int_1 str_int_2)
  with inverted_min_z inverted_bottom inverted_top show ?thesis by blast
qed

subsection \<open>Single-tile mode\<close>

text \<open>Nothing on the way of a single tile reads the grid counts.\<close>

lemma quantized_bottom_ignores_grid:
  "quantized_bottom (cfg\<lparr>TILES_X := tx, TILES_Y := ty\<rparr>) min_z = quantized_bottom cfg min_z"
  by (simp add: quantized_bottom_def Let_def)

lemma add_corner_magnets_ignores_grid:
  "add_corner_magnets (cfg\<lparr>TILES_X := tx, TILES_Y := ty\<rparr>) cube row col x y z cube_height
     = add_corner_magnets cfg cube row col x y z cube_height"
  by (simp add: add_corner_magnets_def magnet_step_def offset_m_def Let_def)

lemma place_tile_ignores_grid:
  "place_tile (cfg\<lparr>TILES_X := tx, TILES_Y := ty\<rparr>) row col min_z = place_tile cfg row col min_z"
proof (cases "quantized_bottom cfg min_z")
  case Inl
  then show ?thesis
    by (simp add: place_tile_def quantized_bottom_ignores_grid Let_def)
next
  case (Inr b)
  then show ?thesis
    by (cases "TILE_SIZE cfg = 0")
       (simp_all add: place_tile_def quantized_bottom_ignores_grid
          add_corner_magnets_ignores_grid Let_def)
qed

lemma min_z_in_tile_ignores_grid:
  "min_z_in_tile (cfg\<lparr>TILES_X := tx, TILES_Y := ty\<rparr>) city row col = min_z_in_tile cfg city row col"
  by (simp add: min_z_in_tile_def tile_aabb_def Let_def)

lemma process_tile_ignores_grid:
  "process_tile (cfg\<lparr>TILES_X := tx, TILES_Y := ty\<rparr>) city row col tiles
     = process_tile cfg city row col tiles"
  by (cases "min_z_in_tile cfg city row col")
     (simp_all add: process_tile_def min_z_in_tile_ignores_grid place_tile_ignores_grid)

lemma main_single_ignores_grid:
  assumes "SINGLE_TILE_MODE cfg"
  shows "main h (cfg\<lparr>TILES_X := tx, TILES_Y := ty\<rparr>) city = main h cfg city"
proof (cases "ensure_dirs h")
  case Inl
  then show ?thesis by (simp add: main_def)
next
  case Inr
  with assms show ?thesis
    by (simp add: main_def process_tile_ignores_grid del: export_tiles.simps)
qed

text \<open>
  Claim C10. In single-tile mode the configured row and column go to the pipeline
  unchecked, for every pair of integers: the footprint is
  \<open>[col * S, (col + 1) * S] \<times> [row * S, (row + 1) * S]\<close>; the run is the same whatever
  \<open>TILES_X\<close> and \<open>TILES_Y\<close> are; a cell without vertices ends the run without a file and
  without an error; and a cell with vertices gives a tile that is exported under the name
  of its column and row (the only errors left being the divisions by zero, which do not
  depend on the index).
\<close>

theorem single_tile_index_unchecked:
  assumes "SINGLE_TILE_MODE cfg" and "SINGLE_TILE_ROW cfg = row" and "SINGLE_TILE_COL cfg = col"
    and "ensure_dirs h = Inr ()"
  shows "tile_aabb cfg row col =
           (of_int col * TILE_SIZE cfg, of_int (col + 1) * TILE_SIZE cfg,
            of_int row * TILE_SIZE cfg, of_int (row + 1) * TILE_SIZE cfg)
     \<and> main h (cfg\<lparr>TILES_X := tx, TILES_Y := ty\<rparr>) city = main h cfg city
     \<and> (min_z_in_tile cfg city row col = None \<longrightarrow>
          (\<exists>out. main h cfg city = Inr out \<and> files out = []))
     \<and> (min_z_in_tile cfg city row col = Some min_z \<and> TILE_SIZE cfg \<noteq> 0
          \<and> (QUANTIZE_FILL cfg \<longrightarrow> FILL_LAYER_THICKNESS cfg \<noteq> 0) \<longrightarrow>
          (\<exists>t. place_tile cfg row col min_z = Inr t
             \<and> main h cfg city =
                 Inr \<lparr> files = [(''output/tiles/tile_'' @ str_int col @ ''_'' @ str_int row @ ''.stl'',
                                 tile_mesh (apply_tile_modifiers h t))],
                       stdout = [''Exported: output/tiles/tile_'' @ str_int col @ ''_''
                                   @ str_int row @ ''.stl'',
                                 ''Created 1 tile(s) with city cut, 2 cm-quantized underside, and four corner magnet holes.''] \<rparr>))"
proof (intro conjI impI)
  show "tile_aabb cfg row col =
           (of_int col * TILE_SIZE cfg, of_int (col + 1) * TILE_SIZE cfg,
            of_int row * TILE_SIZE cfg, of_int (row + 1) * TILE_SIZE cfg)"
    by (simp add: tile_aabb_def)
  show "main h (cfg\<lparr>TILES_X := tx, TILES_Y := ty\<rparr>) city = main h cfg city"
    using assms(1) by (rule main_single_ignores_grid)
next
  assume "min_z_in_tile cfg city row col = None"
  with assms have "main h cfg city =
    Inr \<lparr> files = [],
          stdout = [''Created 1 tile(s) with city cut, 2 cm-quantized underside, and four corner magnet holes.''] \<rparr>"
    by (intro main_single_empty) simp_all
  then show "\<exists>out. main h cfg city = Inr out \<and> files out = []" by simp
next
  assume a: "min_z_in_tile cfg city row col = Some min_z \<and> TILE_SIZE cfg \<noteq> 0
          \<and> (QUANTIZE_FILL cfg \<longrightarrow> FILL_LAYER_THICKNESS cfg \<noteq> 0)"
  then obtain t where t: "place_tile cfg row col min_z = Inr t"
    using place_tile_total [of cfg row col min_z] by blast
  from a t assms have
    "min_z_in_tile cfg city (SINGLE_TILE_ROW cfg) (SINGLE_TILE_COL cfg) = Some min_z"
    "place_tile cfg (SINGLE_TILE_ROW cfg) (SINGLE_TILE_COL cfg) min_z = Inr t"
    by simp_all
  with assms(1,4) have "main h cfg city =
      Inr \<lparr> files = [(''output/tiles/tile_'' @ str_int (SINGLE_TILE_COL cfg) @ ''_''
                      @ str_int (SINGLE_TILE_ROW cfg) @ ''.stl'',
                    tile_mesh (apply_tile_modifiers h t))],
          stdout = [''Exported: output/tiles/tile_'' @ str_int (SINGLE_TILE_COL cfg) @ ''_''
                      @ str_int (SINGLE_TILE_ROW cfg) @ ''.stl'',
                    ''Created 1 tile(s) with city cut, 2 cm-quantized underside, and four corner magnet holes.''] \<rparr>"
    by (intro main_single_populated) simp_all
  with t assms(2,3) show "\<exists>t. place_tile cfg row col min_z = Inr t
             \<and> main h cfg city =
                 Inr \<lparr> files = [(''output/tiles/tile_'' @ str_int col @ ''_'' @ str_int row @ ''.stl'',
                                 tile_mesh (apply_tile_modifiers h t))],
                       stdout = [''Exported: output/tiles/tile_'' @ str_int col @ ''_''
                                   @ str_int row @ ''.stl'',
                                 ''Created 1 tile(s) with city cut, 2 cm-quantized underside, and four corner magnet holes.''] \<rparr>"
    by simp
qed

lemma outside_min_z: "min_z_in_tile outside_config outside_city (- 4) (- 1) = Some 3"
  by (simp add: min_z_in_tile_def tile_aabb_def in_tile_def outside_city_def
      outside_config_def default_config_def)

lemma outside_single: "SINGLE_TILE_MODE outside_config \<and> SINGLE_TILE_ROW outside_config = - 4
   \<and> SINGLE_TILE_COL outside_config = - 1 \<and> TILE_SIZE outside_config \<noteq> 0
   \<and> (QUANTIZE_FILL outside_config \<longrightarrow> FILL_LAYER_THICKNESS outside_config \<noteq> 0)
   \<and> TILES_X outside_config = 3 \<and> TILES_Y outside_config = 5"
  by (simp add: outside_config_def default_config_def)

lemma str_int_neg: "str_int (- 1) = ''-1''" "str_int (- 4) = ''-4''"
  by code_simp+

theorem single_tile_index_unchecked_witness:
  "SINGLE_TILE_MODE outside_config \<and> SINGLE_TILE_ROW outside_config = - 4
   \<and> SINGLE_TILE_COL outside_config = - 1 \<and> ensure_dirs sample_host = Inr ()
   \<and> TILES_X outside_config = 3 \<and> TILES_Y outside_config = 5
   \<and> min_z_in_tile outside_config outside_city (- 4) (- 1) = Some 3
   \<and> tile_aabb outside_config (- 4) (- 1) = (- 0.2, 0, - 0.8, - 0.6)
   \<and> paths_and_stdout (main sample_host outside_config outside_city) =
       Inr ([''output/tiles/tile_-1_-4.stl''],
            [''Exported: output/tiles/tile_-1_-4.stl'',
             ''Created 1 tile(s) with city cut, 2 cm-quantized underside, and four corner magnet holes.''])"
proof -
  have s: "SINGLE_TILE_MODE outside_config" "SINGLE_TILE_ROW outside_config = - 4"
    "SINGLE_TILE_COL outside_config = - 1"
    using outside_single by simp_all
  note w = single_tile_index_unchecked [OF s sample_ensure_dirs, of 0 0 outside_city 3]
  from w have "tile_aabb outside_config (- 4) (- 1) = (- 0.2, 0, - 0.8, - 0.6)"
    by (simp add: outside_config_def default_config_def)
  moreover from w outside_min_z outside_single
  have "paths_and_stdout (main sample_host outside_config outside_city) =
       Inr ([''output/tiles/tile_-1_-4.stl''],
            [''Exported: output/tiles/tile_-1_-4.stl'',
             ''Created 1 tile(s) with city cut, 2 cm-quantized underside, and four corner magnet holes.''])"
    by (auto simp add: paths_and_stdout_def str_int_neg)
  ultimately show ?thesis
    using outside_single outside_min_z sample_ensure_dirs by simp
qed

end
